theory Spec2Isabelle
  imports Complex_Main
begin

section \<open>WealthMap: the client-side computations of the finance pages\<close>

text \<open>
  The pages of the WealthMap client (goal board, budget, liabilities, assets, simulation)
  are React components. Each component is modelled by a record of the state it holds and
  by functions from a state (and the data an API call returned) to the new state or to
  the value that is rendered.

  Numbers. A JavaScript number is modelled as an exact \<open>real\<close>: rounding of IEEE doubles
  is not modelled, so the arithmetic facts below are facts of exact arithmetic. A value
  that is \<open>undefined\<close>, \<open>NaN\<close> or infinite is \<open>None\<close> of an option type. Identifiers and
  calendar years are whole numbers (\<open>nat\<close>, \<open>int\<close>).
\<close>

subsection \<open>JavaScript primitives\<close>

text \<open>\<open>xs[i]\<close>: reading past the end of an array gives \<open>undefined\<close>.\<close>

definition js_index :: "'a list \<Rightarrow> nat \<Rightarrow> 'a option" where
  "js_index xs i = (if i < length xs then Some (xs ! i) else None)"

text \<open>\<open>a - b\<close> on possibly undefined operands: \<open>undefined - b\<close> is \<open>NaN\<close>.\<close>

definition js_sub :: "real option \<Rightarrow> real option \<Rightarrow> real option" where
  "js_sub a b = (case a of None \<Rightarrow> None
                 | Some x \<Rightarrow> (case b of None \<Rightarrow> None | Some y \<Rightarrow> Some (x - y)))"

text \<open>\<open>xs.reduce((sum, item) => sum + f(item), 0)\<close>.\<close>

definition reduce_sum :: "('a \<Rightarrow> real) \<Rightarrow> 'a list \<Rightarrow> real" where
  "reduce_sum f xs = foldl (\<lambda>sum item. sum + f item) 0 xs"

subsection \<open>Simulation page: the fan-chart transform\<close>

text \<open>
  The part of the simulation result that \<open>chartData\<close> reads: the list of years and the
  five percentile series.
\<close>

record simulation_result =
  res_years :: "real list"
  p5 :: "real list"
  p25 :: "real list"
  p50 :: "real list"
  p75 :: "real list"
  p95 :: "real list"

record chart_row =
  row_year :: real
  base :: "real option"
  risk :: "real option"
  low_growth :: "real option"
  high_growth :: "real option"
  max_growth :: "real option"
  val_p5 :: "real option"
  val_p25 :: "real option"
  val_p50 :: "real option"
  val_p75 :: "real option"
  val_p95 :: "real option"

definition chart_row_of :: "simulation_result \<Rightarrow> nat \<Rightarrow> real \<Rightarrow> chart_row" where
  "chart_row_of results index year =
     (let v5 = js_index (p5 results) index;
          v25 = js_index (p25 results) index;
          v50 = js_index (p50 results) index;
          v75 = js_index (p75 results) index;
          v95 = js_index (p95 results) index
      in \<lparr> row_year = year,
           base = v5,
           risk = js_sub v25 v5,
           low_growth = js_sub v50 v25,
           high_growth = js_sub v75 v50,
           max_growth = js_sub v95 v75,
           val_p5 = v5,
           val_p25 = v25,
           val_p50 = v50,
           val_p75 = v75,
           val_p95 = v95 \<rparr>)"

text \<open>\<open>results ? results.years.map((year, index) => ...) : []\<close>.\<close>

definition chartData :: "simulation_result option \<Rightarrow> chart_row list" where
  "chartData results =
     (case results of
        None \<Rightarrow> []
      | Some r \<Rightarrow> map (\<lambda>(index, year). chart_row_of r index year) (enumerate 0 (res_years r)))"

subsection \<open>Dates\<close>

text \<open>
  A goal's \<open>target_date\<close> is a date string. The only thing the pages do with it is
  \<open>new Date(target_date).getFullYear()\<close>, the calendar year in local time of the instant
  the string denotes. The string is represented by the local calendar date it denotes
  (year, month index from 0, day of the month), and a string that does not parse by
  \<open>Invalid_Date\<close>, whose \<open>getFullYear()\<close> is \<open>NaN\<close>.
\<close>

datatype js_date = Date int nat nat | Invalid_Date

definition getFullYear :: "js_date \<Rightarrow> int option" where
  "getFullYear d = (case d of Date y m dd \<Rightarrow> Some y | Invalid_Date \<Rightarrow> None)"

text \<open>
  \<open>new Date(year, 0, 1).toISOString()\<close>: local midnight of January 1. The \<open>Date\<close>
  constructor reads a year from 0 to 99 as 1900 + year.
\<close>

definition new_Date_0_1 :: "int \<Rightarrow> js_date" where
  "new_Date_0_1 year = Date (if 0 \<le> year \<and> year \<le> 99 then 1900 + year else year) 0 1"

text \<open>
  A \<open>Date\<close> holds an instant at most 100,000,000 days from the start of 1970, that is
  from April 20 of the year -271821 to September 13 of the year 275760. January 1 of a
  year outside \<open>Date_in_range\<close> is an invalid date, and \<open>toISOString\<close> throws a
  \<open>RangeError\<close> on it: \<open>new_Date_0_1_toISOString\<close> is \<open>None\<close> then. The years of the
  timeline's slots reach 65 years beyond the current year, itself the year of a \<open>Date\<close>;
  the drop handler, whose year is that of a slot, uses \<open>new_Date_0_1\<close> as it is.
\<close>

definition Date_in_range :: "int \<Rightarrow> bool" where
  "Date_in_range year = (- 271820 \<le> year \<and> year \<le> 275760)"

definition new_Date_0_1_toISOString :: "int \<Rightarrow> js_date option" where
  "new_Date_0_1_toISOString year =
     (if Date_in_range year then Some (new_Date_0_1 year) else None)"

text \<open>\<open>Math.round\<close>: to the nearest whole number, halves upwards.\<close>

definition Math_round :: "real \<Rightarrow> int" where
  "Math_round x = \<lfloor>x + 1 / 2\<rfloor>"

subsection \<open>Goal board: data\<close>

datatype goal_type = lump_sum | cash_flow

text \<open>
  \<open>interface Goal\<close>. The field \<open>id\<close> is written \<open>id'\<close> here; it is optional in the
  source, as is \<open>image_url\<close>.
\<close>

record goal =
  id' :: "nat option"
  name :: string
  amount :: real
  target_date :: js_date
  image_url :: "string option"
  goal_type :: goal_type

text \<open>
  \<open>interface GoalAnalysis\<close>. The two default objects that the board substitutes for a
  missing analysis leave out \<open>goal_id\<close> (and one of them \<open>status\<close>), so these two fields
  are optional here.
\<close>

record goal_analysis =
  goal_id :: "nat option"
  probability :: real
  progress_ratio :: real
  status :: "string option"

datatype filter_type = all_goals | high_impact | at_risk

datatype error_message = Cannot_reach_server

text \<open>
  The state of the \<open>Goals\<close> component (its \<open>useState\<close> cells). The analysis map is
  keyed by what \<open>goal_id\<close> holds; looking it up with the \<open>id\<close> of a goal that has none
  reads the key \<open>undefined\<close>, here \<open>None\<close>.
\<close>

record goals_state =
  goals :: "goal list"
  analysis :: "nat option \<rightharpoonup> goal_analysis"
  loading :: bool
  isModalOpen :: bool
  activeTab :: goal_type
  error :: "error_message option"
  activeId :: "string option"
  activeGoal :: "goal option"
  currentOverYear :: "int option"
  filterType :: filter_type
  zoomLevel :: int
  annualIncome :: real
  editingGoal :: "goal option"
  goalName :: string
  goalAmount :: string
  targetAge :: string

definition initial_state :: goals_state where
  "initial_state =
     \<lparr> goals = [], analysis = Map.empty, loading = True, isModalOpen = False,
       activeTab = lump_sum, error = None, activeId = None, activeGoal = None,
       currentOverYear = None, filterType = all_goals, zoomLevel = 180, annualIncome = 0,
       editingGoal = None, goalName = [], goalAmount = [], targetAge = ''30'' \<rparr>"

definition currentAge :: int where
  "currentAge = 30"

definition maxAge :: int where
  "maxAge = 95"

text \<open>The rows of the other collections the board fetches; it reads only the amounts.\<close>

record asset =
  asset_id :: nat
  asset_name :: string
  asset_category :: string
  "value" :: real
  asset_ticker :: "string option"
  asset_shares :: "real option"

record budget_item =
  item_id :: nat
  item_name :: string
  item_amount :: real
  item_category :: string

subsection \<open>Goal board: loading the goals and their analysis\<close>

text \<open>The body of the request to \<open>/simulation/goals_check\<close>.\<close>

record check_request =
  initial_portfolio :: real
  annual_contribution :: real
  req_years :: nat
  req_goals :: "goal list"

text \<open>
  \<open>analysisRes.data.forEach(item => { analysisMap[item.goal_id] = item })\<close>, starting
  from the empty object.
\<close>

definition analysisMap_of :: "goal_analysis list \<Rightarrow> (nat option \<rightharpoonup> goal_analysis)" where
  "analysisMap_of items = foldl (\<lambda>m item. m(goal_id item \<mapsto> item)) Map.empty items"

text \<open>
  \<open>fetchGoalsAndAnalyze\<close>. Its inputs besides the state are what the backend answers:
  \<open>fetched\<close> is the data of the four \<open>GET\<close> calls (\<open>None\<close> when one of them fails), and
  \<open>goals_check\<close> answers the feasibility request (\<open>None\<close> when the call fails). The result
  is the new state and the feasibility request that was sent, if one was.
\<close>

definition fetchGoalsAndAnalyze ::
  "goals_state \<Rightarrow> (goal list \<times> asset list \<times> budget_item list \<times> budget_item list) option \<Rightarrow>
   (check_request \<Rightarrow> goal_analysis list option) \<Rightarrow> goals_state \<times> check_request option" where
  "fetchGoalsAndAnalyze st fetched goals_check =
     (let st0 = st\<lparr>error := None\<rparr> in
      case fetched of
        None \<Rightarrow> (st0\<lparr>error := Some Cannot_reach_server, loading := False\<rparr>, None)
      | Some (goalsRes, assets, income, expenses) \<Rightarrow>
          (let st1 = st0\<lparr>goals := goalsRes\<rparr>;
               initialPortfolio = reduce_sum value assets;
               monthlyIncome = reduce_sum item_amount income;
               monthlyExpense = reduce_sum item_amount expenses;
               annualContribution = (monthlyIncome - monthlyExpense) * 12;
               st2 = st1\<lparr>annualIncome := monthlyIncome * 12\<rparr>
           in if length goalsRes > 0
              then (let req = \<lparr> initial_portfolio = initialPortfolio,
                                 annual_contribution = annualContribution,
                                 req_years = 65,
                                 req_goals = goalsRes \<rparr>
                    in case goals_check req of
                         None \<Rightarrow> (st2\<lparr>error := Some Cannot_reach_server, loading := False\<rparr>,
                                  Some req)
                       | Some items \<Rightarrow>
                           (st2\<lparr>analysis := analysisMap_of items, loading := False\<rparr>,
                            Some req))
              else (st2\<lparr>loading := False\<rparr>, None)))"

subsection \<open>Goal board: handlers\<close>

text \<open>
  What a handler does besides changing the state: the one API call it makes (with its
  body), and whether it goes on to call \<open>fetchGoalsAndAnalyze\<close>.
\<close>

record goal_data =
  data_name :: string
  data_amount :: "real option"
  data_target_date :: js_date
  data_goal_type :: goal_type

datatype api_call =
    PUT_goal nat goal
  | PUT_goal_data nat goal_data
  | POST_goal_data goal_data
  | DELETE_goal nat

record outcome =
  state_after :: goals_state
  api_called :: "api_call option"
  refetch :: bool

text \<open>Truthiness of an optional number: \<open>undefined\<close> and 0 are falsy.\<close>

definition truthy :: "nat option \<Rightarrow> bool" where
  "truthy x = (case x of None \<Rightarrow> False | Some n \<Rightarrow> n \<noteq> 0)"

text \<open>
  \<open>handleSaveGoal\<close>. \<open>parseInt\<close> and \<open>parseFloat\<close> are parameters (\<open>None\<close> for a result
  that is \<open>NaN\<close> or infinite); \<open>ok\<close> says whether the API call succeeds. The target date is
  computed before the \<open>try\<close>: when \<open>parseInt(targetAge)\<close> is not a finite number, or the
  target year is outside the range of \<open>Date\<close>, \<open>toISOString\<close> throws a \<open>RangeError\<close>, and
  the handler ends there, with no call made and the state as it was.
\<close>

definition handleSaveGoal ::
  "(string \<Rightarrow> int option) \<Rightarrow> (string \<Rightarrow> real option) \<Rightarrow> int \<Rightarrow> goals_state \<Rightarrow> bool \<Rightarrow> outcome" where
  "handleSaveGoal parseInt parseFloat currentYear st ok =
     (if goalName st = [] \<or> goalAmount st = [] \<or> targetAge st = []
      then \<lparr> state_after = st, api_called = None, refetch = False \<rparr>
      else case parseInt (targetAge st) of
        None \<Rightarrow> \<lparr> state_after = st, api_called = None, refetch = False \<rparr>
      | Some age \<Rightarrow>
          (let targetYear = currentYear + (age - currentAge) in
           case new_Date_0_1_toISOString targetYear of
             None \<Rightarrow> \<lparr> state_after = st, api_called = None, refetch = False \<rparr>
           | Some targetDate \<Rightarrow>
               (let goalData = \<lparr> data_name = goalName st,
                                 data_amount = parseFloat (goalAmount st),
                                 data_target_date = targetDate,
                                 data_goal_type = activeTab st \<rparr>;
                    call = (case editingGoal st of
                              None \<Rightarrow> POST_goal_data goalData
                            | Some eg \<Rightarrow>
                                (case id' eg of
                                   None \<Rightarrow> POST_goal_data goalData
                                 | Some n \<Rightarrow> if n \<noteq> 0 then PUT_goal_data n goalData
                                             else POST_goal_data goalData))
                in if ok
                   then \<lparr> state_after = st\<lparr>isModalOpen := False, goalName := [],
                                            goalAmount := [], editingGoal := None\<rparr>,
                           api_called = Some call, refetch = True \<rparr>
                   else \<lparr> state_after = st, api_called = Some call, refetch = False \<rparr>)))"

text \<open>\<open>handleDeleteGoal\<close>; \<open>confirmed\<close> is the answer to \<open>window.confirm\<close>.\<close>

definition handleDeleteGoal :: "goals_state \<Rightarrow> nat \<Rightarrow> bool \<Rightarrow> bool \<Rightarrow> outcome" where
  "handleDeleteGoal st ident confirmed ok =
     (if \<not> confirmed then \<lparr> state_after = st, api_called = None, refetch = False \<rparr>
      else \<lparr> state_after = st, api_called = Some (DELETE_goal ident), refetch = ok \<rparr>)"

text \<open>
  Drag events. \<open>active\<close> is \<open>active.data.current?.goal\<close>, the goal of the dragged card;
  \<open>over\<close> is \<open>None\<close> when the pointer is over no year-slot and otherwise the
  \<open>data.current?.year\<close> of the slot.
\<close>

record drag_event =
  active_id :: string
  active :: "goal option"
  over :: "int option"

definition handleDragStart :: "goals_state \<Rightarrow> drag_event \<Rightarrow> goals_state" where
  "handleDragStart st event = st\<lparr>activeId := Some (active_id event), activeGoal := active event\<rparr>"

definition handleDragOver :: "goals_state \<Rightarrow> drag_event \<Rightarrow> goals_state" where
  "handleDragOver st event =
     (case over event of
        Some y \<Rightarrow> st\<lparr>currentOverYear := Some y\<rparr>
      | None \<Rightarrow> st\<lparr>currentOverYear := None\<rparr>)"

text \<open>
  \<open>handleDragEnd\<close>. The update call is made, and the goals are fetched again whether it
  succeeds or fails, when the list holds a goal with the dragged id.
\<close>

definition handleDragEnd :: "goals_state \<Rightarrow> drag_event \<Rightarrow> outcome" where
  "handleDragEnd st event =
     (let st1 = st\<lparr>activeId := None, activeGoal := None, currentOverYear := None\<rparr> in
      case over event of
        None \<Rightarrow> \<lparr> state_after = st1, api_called = None, refetch = False \<rparr>
      | Some newYear \<Rightarrow>
          (let goalId = (case active event of None \<Rightarrow> None | Some g \<Rightarrow> id' g) in
           if truthy goalId \<and> newYear \<noteq> 0
           then (let updatedGoals =
                       map (\<lambda>g. if id' g = goalId
                                then (let newDate = new_Date_0_1 newYear
                                      in g\<lparr>target_date := newDate\<rparr>)
                                else g) (goals st);
                     st2 = st1\<lparr>goals := updatedGoals\<rparr>
                 in case find (\<lambda>g. id' g = goalId) (goals st) of
                      None \<Rightarrow> \<lparr> state_after = st2, api_called = None, refetch = False \<rparr>
                    | Some goalToUpdate \<Rightarrow>
                        (let newDate = new_Date_0_1 newYear
                         in \<lparr> state_after = st2,
                              api_called = Some (PUT_goal (the goalId)
                                                   (goalToUpdate\<lparr>target_date := newDate\<rparr>)),
                              refetch = True \<rparr>))
           else \<lparr> state_after = st1, api_called = None, refetch = False \<rparr>))"

text \<open>A handler followed by the reload it asks for.\<close>

definition then_refetch ::
  "outcome \<Rightarrow> (goal list \<times> asset list \<times> budget_item list \<times> budget_item list) option \<Rightarrow>
   (check_request \<Rightarrow> goal_analysis list option) \<Rightarrow> goals_state \<times> check_request option" where
  "then_refetch out fetched goals_check =
     (if refetch out then fetchGoalsAndAnalyze (state_after out) fetched goals_check
      else (state_after out, None))"

subsection \<open>Goal board: what is rendered\<close>

text \<open>The year-slots of the timeline: one for each age from \<open>currentAge\<close> to \<open>maxAge\<close>.\<close>

record slot =
  age :: int
  year :: int

definition timelineSlots :: "int \<Rightarrow> slot list" where
  "timelineSlots currentYear =
     map (\<lambda>i. \<lparr> age = currentAge + int i, year = currentYear + int i \<rparr>)
       [0 ..< nat (maxAge - currentAge) + 1]"

text \<open>
  The filter of the board. \<open>gAnalysis\<close> is the analysis the filter reads for a goal:
  \<open>analysis[g.id!] || { probability: 0, progress_ratio: 0 }\<close>.
\<close>

definition gAnalysis :: "goals_state \<Rightarrow> goal \<Rightarrow> goal_analysis" where
  "gAnalysis st g =
     (case analysis st (id' g) of
        Some a \<Rightarrow> a
      | None \<Rightarrow> \<lparr> goal_id = None, probability = 0, progress_ratio = 0, status = None \<rparr>)"

definition filteredGoals :: "goals_state \<Rightarrow> goal list" where
  "filteredGoals st =
     filter (\<lambda>g.
        if filterType st = all_goals then True
        else (let ratio = (if annualIncome st > 0 then amount g / annualIncome st else 0)
              in if filterType st = high_impact then ratio > 0.5
                 else if filterType st = at_risk then probability (gAnalysis st g) < 50
                 else True))
       (goals st)"

definition slotGoals :: "goals_state \<Rightarrow> slot \<Rightarrow> goal list" where
  "slotGoals st slot = filter (\<lambda>g. getFullYear (target_date g) = Some (year slot)) (filteredGoals st)"

text \<open>The analysis handed to the card of a goal.\<close>

definition card_analysis :: "goals_state \<Rightarrow> goal \<Rightarrow> goal_analysis" where
  "card_analysis st g =
     (case analysis st (id' g) of
        Some a \<Rightarrow> a
      | None \<Rightarrow> \<lparr> goal_id = None, probability = 0, progress_ratio = 0,
                  status = Some ''Unknown'' \<rparr>)"

subsection \<open>Goal board: the drag feedback tooltip\<close>

text \<open>
  The constants computed inside the tooltip of the drag overlay, for a dragged goal whose
  target date has the year \<open>oldYear\<close>.
\<close>

record impact =
  diff :: int
  oldYearsLeft :: int
  newYearsLeft :: int
  oldMonthly :: real
  newMonthly :: real
  monthlyDiff :: real

definition impact_of :: "int \<Rightarrow> int \<Rightarrow> int \<Rightarrow> real \<Rightarrow> impact" where
  "impact_of currentYear oldYear overYear amt =
     (let diff = overYear - oldYear;
          oldYearsLeft = max 1 (oldYear - currentYear);
          newYearsLeft = max 1 (overYear - currentYear);
          oldMonthly = amt / (real_of_int oldYearsLeft * 12);
          newMonthly = amt / (real_of_int newYearsLeft * 12);
          monthlyDiff = newMonthly - oldMonthly
      in \<lparr> diff = diff, oldYearsLeft = oldYearsLeft, newYearsLeft = newYearsLeft,
           oldMonthly = oldMonthly, newMonthly = newMonthly, monthlyDiff = monthlyDiff \<rparr>)"

datatype direction = Increase | Decrease

text \<open>
  What the tooltip shows: the old year (\<open>None\<close> for \<open>NaN\<close>), the hovered year, the age in
  that year, and, unless the hovered year is the old one, the line that says whether the
  monthly amount goes up or down. The figure printed on that line,
  \<open>Math.abs(Math.round(monthlyDiff))\<close>, is the rounding of a difference of doubles: which
  whole number it is can depend on the last bit of that difference, which exact
  arithmetic does not have, so the figure is not part of the record.
\<close>

record tooltip =
  shown_oldYear :: "int option"
  shown_overYear :: int
  shown_age :: int
  shown_delta :: "direction option"

text \<open>
  The tooltip is rendered while a goal is being dragged (\<open>activeId && activeGoal\<close>) over
  a year (\<open>currentOverYear\<close> truthy). With an unparsable target date the old year is
  \<open>NaN\<close>, and so are \<open>diff\<close> and \<open>monthlyDiff\<close>: then \<open>diff !== 0\<close> holds and
  \<open>monthlyDiff > 0\<close> does not.
\<close>

definition feedback_tooltip :: "int \<Rightarrow> goals_state \<Rightarrow> tooltip option" where
  "feedback_tooltip currentYear st =
     (case activeId st of
        None \<Rightarrow> None
      | Some aid \<Rightarrow>
          if aid = [] then None
          else case activeGoal st of
            None \<Rightarrow> None
          | Some g \<Rightarrow>
              (case currentOverYear st of
                 None \<Rightarrow> None
               | Some overYear \<Rightarrow>
                   if overYear = 0 then None
                   else case getFullYear (target_date g) of
                     None \<Rightarrow>
                       Some \<lparr> shown_oldYear = None, shown_overYear = overYear,
                              shown_age = currentAge + (overYear - currentYear),
                              shown_delta = Some Decrease \<rparr>
                   | Some oldYear \<Rightarrow>
                       (let i = impact_of currentYear oldYear overYear (amount g)
                        in Some \<lparr> shown_oldYear = Some oldYear, shown_overYear = overYear,
                                  shown_age = currentAge + (overYear - currentYear),
                                  shown_delta =
                                    (if diff i \<noteq> 0
                                     then Some (if monthlyDiff i > 0 then Increase
                                                else Decrease)
                                     else None) \<rparr>)))"

text \<open>
  The required monthly contribution in the words of the specification: the amount divided
  by (the years from the current year to the target year, at least 1) \<open>\<times>\<close> 12.
\<close>

definition spec_required_monthly :: "real \<Rightarrow> int \<Rightarrow> int \<Rightarrow> real" where
  "spec_required_monthly amt targetYear currentYear =
     amt / (real_of_int (max 1 (targetYear - currentYear)) * 12)"

subsection \<open>Budget page\<close>

text \<open>\<open>year.toString()\<close> for a whole number.\<close>

definition digit_char :: "nat \<Rightarrow> char" where
  "digit_char d = ''0123456789'' ! d"

fun digits_of :: "nat \<Rightarrow> string" where
  "digits_of n =
     (if n < 10 then [digit_char n] else digits_of (n div 10) @ [digit_char (n mod 10)])"

declare digits_of.simps [simp del]

definition toString :: "int \<Rightarrow> string" where
  "toString i = (if i < 0 then CHR ''-'' # digits_of (nat (- i)) else digits_of (nat i))"

text \<open>
  The collections of the \<open>Budget\<close> component and the values it derives from them at each
  render.
\<close>

record budget_state =
  incomes :: "budget_item list"
  expenses :: "budget_item list"
  budget_goals :: "goal list"

definition totalIncome :: "budget_state \<Rightarrow> real" where
  "totalIncome st = reduce_sum item_amount (incomes st)"

definition totalExpense :: "budget_state \<Rightarrow> real" where
  "totalExpense st = reduce_sum item_amount (expenses st)"

definition netFlow :: "budget_state \<Rightarrow> real" where
  "netFlow st = totalIncome st - totalExpense st"

text \<open>The figure on the net cash flow card: \<open>Math.round(netFlow)\<close>.\<close>

definition shown_netFlow :: "budget_state \<Rightarrow> int" where
  "shown_netFlow st = Math_round (netFlow st)"

record forecast_row =
  year_label :: string
  row_netFlow :: real
  baseFlow :: real
  goalsImpact :: real

text \<open>\<open>forecastData\<close>: \<open>Array.from({ length: 10 }, (_, i) => ...)\<close>.\<close>

definition forecastData :: "int \<Rightarrow> budget_state \<Rightarrow> forecast_row list" where
  "forecastData currentYear st =
     map (\<lambda>i.
        let year = currentYear + int i;
            annualBaseFlow = netFlow st * 12;
            yearGoals = filter (\<lambda>g. getFullYear (target_date g) = Some year) (budget_goals st);
            goalsAmount = reduce_sum amount yearGoals
        in \<lparr> year_label = toString year,
             row_netFlow = annualBaseFlow - goalsAmount,
             baseFlow = annualBaseFlow,
             goalsImpact = - goalsAmount \<rparr>)
       [0 ..< 10]"

subsection \<open>Assets page: the form and the stock preview\<close>

text \<open>The form object \<open>newAsset\<close> and the answer of \<open>/finance/stock/preview\<close>.\<close>

record asset_form =
  form_name :: string
  form_category :: string
  form_value :: real
  form_ticker :: string
  form_shares :: real

record preview_data =
  ticker :: string
  price :: real
  currency :: string
  exchange_rate :: real
  total_value_twd :: real

record assets_state =
  assets :: "asset list"
  newAsset :: asset_form
  editingId :: "nat option"
  previewData :: "preview_data option"
  form_loading :: bool
  previewLoading :: bool

text \<open>
  \<open>fetchPreview\<close>, the body of the preview effect once its delay has passed and its call
  has settled. \<open>preview\<close> is the backend: it answers a ticker and a share count, \<open>None\<close>
  when the call fails.
\<close>

definition fetchPreview :: "(string \<Rightarrow> real \<Rightarrow> preview_data option) \<Rightarrow> assets_state \<Rightarrow> assets_state" where
  "fetchPreview preview st =
     (if form_category (newAsset st) = ''Stock/Fund'' \<and> form_ticker (newAsset st) \<noteq> []
         \<and> form_shares (newAsset st) > 0
      then (case preview (form_ticker (newAsset st)) (form_shares (newAsset st)) of
              Some res_data \<Rightarrow>
                st\<lparr>previewData := Some res_data,
                   newAsset := (newAsset st)\<lparr>form_value := total_value_twd res_data\<rparr>,
                   previewLoading := False\<rparr>
            | None \<Rightarrow> st\<lparr>previewData := None, previewLoading := False\<rparr>)
      else st\<lparr>previewData := None\<rparr>)"

text \<open>The \<open>disabled\<close> attribute of the submit button.\<close>

definition submit_disabled :: "assets_state \<Rightarrow> bool" where
  "submit_disabled st =
     (form_loading st \<or> (form_category (newAsset st) = ''Stock/Fund'' \<and> previewData st = None))"

datatype asset_call = PUT_asset nat asset_form | POST_asset asset_form

definition resetForm :: "assets_state \<Rightarrow> assets_state" where
  "resetForm st =
     st\<lparr>editingId := None,
        newAsset := \<lparr> form_name = [], form_category = ''Cash/Bank Deposit'', form_value = 0,
                      form_ticker = [], form_shares = 0 \<rparr>,
        previewData := None\<rparr>"

text \<open>
  \<open>handleAddOrUpdateAsset\<close>: the call it makes, with the form object as its body, and the
  form state once the call has settled (\<open>ok\<close>: the call succeeds). The reload of the
  asset list that follows a success is not modelled.
\<close>

definition handleAddOrUpdateAsset :: "assets_state \<Rightarrow> bool \<Rightarrow> assets_state \<times> asset_call" where
  "handleAddOrUpdateAsset st ok =
     (let call = (if truthy (editingId st) then PUT_asset (the (editingId st)) (newAsset st)
                  else POST_asset (newAsset st))
      in ((if ok then resetForm st else st)\<lparr>form_loading := False\<rparr>, call))"

text \<open>The body of the call, either way.\<close>

fun body_of :: "asset_call \<Rightarrow> asset_form" where
  "body_of (PUT_asset n body) = body"
| "body_of (POST_asset body) = body"

subsection \<open>Liabilities page: the monthly payment\<close>

text \<open>Truthiness of a number that may be unset: \<open>undefined\<close>, \<open>null\<close>, \<open>NaN\<close> and 0 are falsy.\<close>

definition falsy :: "real option \<Rightarrow> bool" where
  "falsy x = (case x of None \<Rightarrow> True | Some v \<Rightarrow> v = 0)"

text \<open>
  Division and \<open>Math.pow\<close> on finite numbers; the result is \<open>None\<close> when it is \<open>NaN\<close> or
  infinite (a zero divisor; zero to a negative power; a negative base with a fractional
  exponent).
\<close>

definition js_div :: "real \<Rightarrow> real \<Rightarrow> real option" where
  "js_div x y = (if y = 0 then None else Some (x / y))"

definition Math_pow :: "real \<Rightarrow> real \<Rightarrow> real option" where
  "Math_pow b e =
     (if e = 0 then Some 1
      else if b > 0 then Some (b powr e)
      else if b = 0 then (if e > 0 then Some 0 else None)
      else if e = real_of_int \<lfloor>e\<rfloor> then Some (b powi \<lfloor>e\<rfloor>)
      else None)"

text \<open>
  \<open>calculateMonthlyPayment(item.amount, item.interest_rate, item.years)\<close>; the interest
  rate is stored in percent a year.
\<close>

definition calculateMonthlyPayment :: "real option \<Rightarrow> real option \<Rightarrow> real option \<Rightarrow> real option" where
  "calculateMonthlyPayment amount_opt rate years =
     (if falsy amount_opt \<or> falsy years then Some 0
      else if falsy rate then js_div (the amount_opt) (the years * 12)
      else (let r = the rate / 100 / 12;
                n = the years * 12
            in case Math_pow (1 + r) n of
                 None \<Rightarrow> None
               | Some p \<Rightarrow> js_div (the amount_opt * (r * p)) (p - 1)))"

section \<open>Properties\<close>

subsection \<open>Fan-chart bands\<close>

lemma chartData_nth:
  "index < length (res_years r) \<Longrightarrow>
   chartData (Some r) ! index = chart_row_of r index (res_years r ! index)"
  by (simp add: chartData_def nth_enumerate_eq)

lemma chartData_length: "length (chartData (Some r)) = length (res_years r)"
  by (simp add: chartData_def)

text \<open>
  Claim C2. For a year (an index of the year list) at which the five percentile series
  have values with P5 \<open>\<le>\<close> P25 \<open>\<le>\<close> P50 \<open>\<le>\<close> P75 \<open>\<le>\<close> P95, the chart row of that year carries
  the four band heights P25 - P5, P50 - P25, P75 - P50 and P95 - P75; each of them is
  non-negative and together they add up to P95 - P5.
\<close>

theorem chartData_bands:
  assumes "index < length (res_years r)"
    and "js_index (p5 r) index = Some a"
    and "js_index (p25 r) index = Some b"
    and "js_index (p50 r) index = Some c"
    and "js_index (p75 r) index = Some d"
    and "js_index (p95 r) index = Some e"
    and "a \<le> b" and "b \<le> c" and "c \<le> d" and "d \<le> e"
  shows "\<exists>h1 h2 h3 h4.
           risk (chartData (Some r) ! index) = Some h1 \<and>
           low_growth (chartData (Some r) ! index) = Some h2 \<and>
           high_growth (chartData (Some r) ! index) = Some h3 \<and>
           max_growth (chartData (Some r) ! index) = Some h4 \<and>
           h1 = b - a \<and> h2 = c - b \<and> h3 = d - c \<and> h4 = e - d \<and>
           0 \<le> h1 \<and> 0 \<le> h2 \<and> 0 \<le> h3 \<and> 0 \<le> h4 \<and>
           h1 + h2 + h3 + h4 = e - a"
  using assms by (simp add: chartData_nth chart_row_of_def js_sub_def Let_def)

theorem chartData_bands_witness:
  "\<exists>h1 h2 h3 h4.
     risk (chartData (Some \<lparr> res_years = [1, 2], p5 = [10, 20], p25 = [15, 30],
             p50 = [15, 45], p75 = [40, 50], p95 = [100, 80] \<rparr>) ! 1) = Some h1 \<and>
     low_growth (chartData (Some \<lparr> res_years = [1, 2], p5 = [10, 20], p25 = [15, 30],
             p50 = [15, 45], p75 = [40, 50], p95 = [100, 80] \<rparr>) ! 1) = Some h2 \<and>
     high_growth (chartData (Some \<lparr> res_years = [1, 2], p5 = [10, 20], p25 = [15, 30],
             p50 = [15, 45], p75 = [40, 50], p95 = [100, 80] \<rparr>) ! 1) = Some h3 \<and>
     max_growth (chartData (Some \<lparr> res_years = [1, 2], p5 = [10, 20], p25 = [15, 30],
             p50 = [15, 45], p75 = [40, 50], p95 = [100, 80] \<rparr>) ! 1) = Some h4 \<and>
     h1 = 10 \<and> h2 = 15 \<and> h3 = 5 \<and> h4 = 30 \<and> h1 + h2 + h3 + h4 = 60"
  using chartData_bands [of 1 "\<lparr> res_years = [1, 2], p5 = [10, 20], p25 = [15, 30],
             p50 = [15, 45], p75 = [40, 50], p95 = [100, 80] \<rparr>" 20 30 45 50 80]
  by (simp add: js_index_def)

subsection \<open>Monthly payment of a liability\<close>

lemma amortization_algebra:
  fixes A m P :: real
  assumes "P \<noteq> 0" and "P \<noteq> 1"
  shows "A * (m * P) / (P - 1) = A * m / (1 - 1 / P)"
  using assms by (simp add: field_simps)

lemma payment_no_term:
  "calculateMonthlyPayment amt rate None = Some 0"
  "calculateMonthlyPayment amt rate (Some 0) = Some 0"
  by (simp_all add: calculateMonthlyPayment_def falsy_def)

lemma payment_no_interest:
  "n \<noteq> 0 \<Longrightarrow> calculateMonthlyPayment (Some A) (Some 0) (Some n) = Some (A / (12 * n))"
  by (simp add: calculateMonthlyPayment_def falsy_def js_div_def mult.commute)

lemma payment_with_interest:
  assumes "n \<noteq> 0" and "0 < p"
  shows "calculateMonthlyPayment (Some A) (Some p) (Some n) =
         Some (A * (p / 100 / 12) / (1 - (1 + p / 100 / 12) powr (- (12 * n))))"
proof (cases "A = 0")
  case True
  then show ?thesis by (simp add: calculateMonthlyPayment_def falsy_def)
next
  case False
  define m where "m = p / 100 / 12"
  define P where "P = (1 + m) powr (n * 12)"
  have m: "0 < m" and pm: "p / 1200 = m" using assms by (simp_all add: m_def)
  have P0: "P \<noteq> 0" using m by (simp add: P_def)
  have P1: "P \<noteq> 1" using m assms(1) by (simp add: P_def powr_eq_one_iff)
  have inv: "(1 + m) powr (- (12 * n)) = 1 / P"
    by (simp add: P_def powr_minus mult.commute inverse_eq_divide)
  have pow: "Math_pow (1 + m) (n * 12) = Some P"
    using m assms(1) by (simp add: Math_pow_def P_def)
  have "calculateMonthlyPayment (Some A) (Some p) (Some n) = Some (A * (m * P) / (P - 1))"
    using False assms P1
    by (simp add: calculateMonthlyPayment_def falsy_def Let_def pm pow js_div_def)
  also have "A * (m * P) / (P - 1) = A * m / (1 - 1 / P)"
    by (rule amortization_algebra [OF P0 P1])
  also have "\<dots> = A * m / (1 - (1 + m) powr (- (12 * n)))"
    by (simp only: inv)
  finally show ?thesis by (simp only: m_def)
qed

text \<open>
  Claim C3. For a liability with amount \<open>A\<close>, an interest rate stored as \<open>p\<close> percent a
  year, that is an annual rate \<open>r = p / 100\<close>, and a term of \<open>n\<close> years, the monthly
  payment is \<open>A \<cdot> (r / 12) / (1 - (1 + r / 12)\<^sup>-\<^sup>1\<^sup>2\<^sup>n)\<close> when the rate is positive and
  \<open>A / (12 n)\<close> when it is zero; it is 0 when the term is 0 or not set.
\<close>

theorem calculateMonthlyPayment_amortization:
  "calculateMonthlyPayment (Some A) rate None = Some 0 \<and>
   calculateMonthlyPayment (Some A) rate (Some 0) = Some 0 \<and>
   (n \<noteq> 0 \<longrightarrow> calculateMonthlyPayment (Some A) (Some 0) (Some n) = Some (A / (12 * n))) \<and>
   (n \<noteq> 0 \<and> 0 < p \<longrightarrow>
      calculateMonthlyPayment (Some A) (Some p) (Some n) =
      Some (A * (p / 100 / 12) / (1 - (1 + p / 100 / 12) powr (- (12 * n)))))"
  using payment_no_term [of "Some A" rate] payment_no_interest [of n A]
    payment_with_interest [of n p A]
  by blast

theorem calculateMonthlyPayment_amortization_witness:
  "calculateMonthlyPayment (Some 1200) (Some 5) None = Some 0 \<and>
   calculateMonthlyPayment (Some 1200) (Some 5) (Some 0) = Some 0 \<and>
   calculateMonthlyPayment (Some 1200) (Some 0) (Some 1) = Some 100 \<and>
   calculateMonthlyPayment (Some 1200) (Some 1200) (Some 1) = Some (4915200 / 4095)"
  using calculateMonthlyPayment_amortization [of 1200 "Some 5" 1 1200]
  by (simp add: powr_minus)

subsection \<open>Dropping a goal on a year-slot\<close>

lemma slot_years:
  "map year (timelineSlots currentYear) = map (\<lambda>i. currentYear + int i) [0 ..< 66]"
  by (simp add: timelineSlots_def currentAge_def maxAge_def comp_def)

lemma slot_year_range:
  "Y \<in> year ` set (timelineSlots currentYear) \<longleftrightarrow> currentYear \<le> Y \<and> Y \<le> currentYear + 65"
proof -
  have "year ` set (timelineSlots currentYear) = set (map year (timelineSlots currentYear))"
    by simp
  also have "\<dots> = (\<lambda>i. currentYear + int i) ` {0 ..< 66}"
    by (simp only: slot_years set_map set_upt)
  also have "\<dots> = {currentYear .. currentYear + 65}"
  proof (rule set_eqI)
    fix y
    show "y \<in> (\<lambda>i. currentYear + int i) ` {0 ..< 66} \<longleftrightarrow> y \<in> {currentYear .. currentYear + 65}"
    proof
      assume "y \<in> (\<lambda>i. currentYear + int i) ` {0 ..< 66}"
      then show "y \<in> {currentYear .. currentYear + 65}" by auto
    next
      assume "y \<in> {currentYear .. currentYear + 65}"
      then have "y = currentYear + int (nat (y - currentYear))"
        and "nat (y - currentYear) \<in> {0 ..< 66}"
        by auto
      then show "y \<in> (\<lambda>i. currentYear + int i) ` {0 ..< 66}" by (rule image_eqI)
    qed
  qed
  finally show ?thesis by simp
qed

lemma new_Date_0_1_plain: "100 \<le> y \<Longrightarrow> new_Date_0_1 y = Date y 0 1"
  by (simp add: new_Date_0_1_def)

lemma handleDragEnd_goals:
  assumes "active event = Some dragged" and "id' dragged = Some gid" and "gid \<noteq> 0"
    and "over event = Some Y2" and "Y2 \<noteq> 0"
  shows "goals (state_after (handleDragEnd st event)) =
         map (\<lambda>g. if id' g = Some gid then g\<lparr>target_date := new_Date_0_1 Y2\<rparr> else g) (goals st)"
  using assms by (simp add: handleDragEnd_def truthy_def Let_def split: option.split)

text \<open>
  Claim C1, as amended. The drop handler goes on only when the dragged goal's id is
  truthy, so a goal without an id is not moved. For a dragged goal with a non-zero id
  \<open>gid\<close>, dropped on a year-slot \<open>Y2\<close> of the timeline (the current year being at least
  100, so that \<open>Date\<close> takes the slot's year as it is), the new goal list has the same
  length; every goal with the id \<open>gid\<close> has its target date set to January 1 of \<open>Y2\<close> and
  its other fields kept; every goal with another id is the same as before.
\<close>

theorem handleDragEnd_updates_only_dragged:
  assumes "active event = Some dragged" and "id' dragged = Some gid" and "gid \<noteq> 0"
    and "over event = Some Y2" and "Y2 \<in> year ` set (timelineSlots currentYear)"
    and "100 \<le> currentYear"
  shows "length (goals (state_after (handleDragEnd st event))) = length (goals st) \<and>
         (\<forall>i < length (goals st).
            (id' (goals st ! i) = Some gid \<longrightarrow>
               goals (state_after (handleDragEnd st event)) ! i =
               (goals st ! i)\<lparr>target_date := Date Y2 0 1\<rparr>) \<and>
            (id' (goals st ! i) \<noteq> Some gid \<longrightarrow>
               goals (state_after (handleDragEnd st event)) ! i = goals st ! i))"
proof -
  from assms(5,6) have Y: "100 \<le> Y2" by (simp add: slot_year_range)
  then have "Y2 \<noteq> 0" by simp
  from handleDragEnd_goals [OF assms(1-4) this]
  show ?thesis using Y by (simp add: new_Date_0_1_plain)
qed

theorem handleDragEnd_updates_only_dragged_witness:
  "length (goals (state_after (handleDragEnd
      (initial_state\<lparr>goals :=
         [\<lparr> id' = Some 1, name = ''car'', amount = 500000, target_date = Date 2030 5 15,
             image_url = None, goal_type = lump_sum \<rparr>,
          \<lparr> id' = Some 2, name = ''house'', amount = 9000000, target_date = Date 2040 0 1,
             image_url = None, goal_type = lump_sum \<rparr>]\<rparr>)
      \<lparr> active_id = ''goal-1'',
        active = Some \<lparr> id' = Some 1, name = ''car'', amount = 500000,
                        target_date = Date 2030 5 15, image_url = None, goal_type = lump_sum \<rparr>,
        over = Some 2035 \<rparr>))) = 2 \<and>
   goals (state_after (handleDragEnd
      (initial_state\<lparr>goals :=
         [\<lparr> id' = Some 1, name = ''car'', amount = 500000, target_date = Date 2030 5 15,
             image_url = None, goal_type = lump_sum \<rparr>,
          \<lparr> id' = Some 2, name = ''house'', amount = 9000000, target_date = Date 2040 0 1,
             image_url = None, goal_type = lump_sum \<rparr>]\<rparr>)
      \<lparr> active_id = ''goal-1'',
        active = Some \<lparr> id' = Some 1, name = ''car'', amount = 500000,
                        target_date = Date 2030 5 15, image_url = None, goal_type = lump_sum \<rparr>,
        over = Some 2035 \<rparr>)) =
     [\<lparr> id' = Some 1, name = ''car'', amount = 500000, target_date = Date 2035 0 1,
         image_url = None, goal_type = lump_sum \<rparr>,
      \<lparr> id' = Some 2, name = ''house'', amount = 9000000, target_date = Date 2040 0 1,
         image_url = None, goal_type = lump_sum \<rparr>]"
  using handleDragEnd_updates_only_dragged
    [of "\<lparr> active_id = ''goal-1'',
           active = Some \<lparr> id' = Some 1, name = ''car'', amount = 500000,
                           target_date = Date 2030 5 15, image_url = None,
                           goal_type = lump_sum \<rparr>,
           over = Some 2035 \<rparr>"
        "\<lparr> id' = Some 1, name = ''car'', amount = 500000, target_date = Date 2030 5 15,
           image_url = None, goal_type = lump_sum \<rparr>"
        1 2035 2026
        "initial_state\<lparr>goals :=
           [\<lparr> id' = Some 1, name = ''car'', amount = 500000, target_date = Date 2030 5 15,
               image_url = None, goal_type = lump_sum \<rparr>,
            \<lparr> id' = Some 2, name = ''house'', amount = 9000000, target_date = Date 2040 0 1,
               image_url = None, goal_type = lump_sum \<rparr>]\<rparr>"]
  by (simp add: slot_year_range handleDragEnd_def truthy_def new_Date_0_1_def Let_def)

text \<open>
  The claim as stated fails for a goal that has no id: dropped on the slot of 2035 (a
  slot of the timeline in 2026), the goal list is left as it was.
\<close>

theorem handleDragEnd_no_id_counterexample:
  "2035 \<in> year ` set (timelineSlots 2026) \<and>
   goals (state_after (handleDragEnd
      (initial_state\<lparr>goals :=
         [\<lparr> id' = None, name = ''car'', amount = 500000, target_date = Date 2030 5 15,
             image_url = None, goal_type = lump_sum \<rparr>]\<rparr>)
      \<lparr> active_id = ''goal-undefined'',
        active = Some \<lparr> id' = None, name = ''car'', amount = 500000,
                        target_date = Date 2030 5 15, image_url = None, goal_type = lump_sum \<rparr>,
        over = Some 2035 \<rparr>)) =
     [\<lparr> id' = None, name = ''car'', amount = 500000, target_date = Date 2030 5 15,
         image_url = None, goal_type = lump_sum \<rparr>]"
  by (simp add: slot_year_range handleDragEnd_def truthy_def initial_state_def Let_def)

subsection \<open>The filters of the goal board\<close>

lemma filteredGoals_at_risk:
  "filterType st = at_risk \<Longrightarrow>
   filteredGoals st = filter (\<lambda>g. probability (gAnalysis st g) < 50) (goals st)"
  by (simp add: filteredGoals_def)

lemma filteredGoals_high_impact:
  assumes "filterType st = high_impact" and "0 < annualIncome st"
  shows "filteredGoals st = filter (\<lambda>g. amount g > 0.5 * annualIncome st) (goals st)"
proof -
  have "amount g / annualIncome st > 0.5 \<longleftrightarrow> amount g > 0.5 * annualIncome st" for g
    using assms(2) by (simp add: field_simps)
  then show ?thesis using assms by (simp add: filteredGoals_def)
qed

lemma filteredGoals_no_income:
  assumes "filterType st = high_impact" and "annualIncome st \<le> 0"
  shows "filteredGoals st = []"
  using assms by (simp add: filteredGoals_def)

text \<open>
  Claim C5, as amended. The at-risk filter returns exactly the goals whose analysis
  probability, taken as 0 for a goal with no analysis entry, is below 50. The high-impact
  filter compares the ratio amount / annual income, which it takes as 0 unless the annual
  income is positive: with a positive annual income it returns exactly the goals whose
  amount exceeds 0.5 times the annual income, and otherwise it returns no goal.
\<close>

theorem filteredGoals_exact:
  "(filterType st = at_risk \<longrightarrow>
      filteredGoals st =
      filter (\<lambda>g. (case analysis st (id' g) of Some a \<Rightarrow> probability a | None \<Rightarrow> 0) < 50)
        (goals st)) \<and>
   (filterType st = high_impact \<and> 0 < annualIncome st \<longrightarrow>
      filteredGoals st = filter (\<lambda>g. amount g > 0.5 * annualIncome st) (goals st)) \<and>
   (filterType st = high_impact \<and> annualIncome st \<le> 0 \<longrightarrow> filteredGoals st = [])"
proof -
  have "probability (gAnalysis st g) =
        (case analysis st (id' g) of Some a \<Rightarrow> probability a | None \<Rightarrow> 0)" for g
    by (simp add: gAnalysis_def split: option.split)
  then show ?thesis
    using filteredGoals_at_risk [of st] filteredGoals_high_impact [of st]
      filteredGoals_no_income [of st]
    by simp
qed

theorem filteredGoals_exact_witness:
  "filteredGoals (initial_state\<lparr>goals :=
       [\<lparr> id' = Some 1, name = ''car'', amount = 500000, target_date = Date 2030 5 15,
           image_url = None, goal_type = lump_sum \<rparr>,
        \<lparr> id' = Some 2, name = ''trip'', amount = 100000, target_date = Date 2028 0 1,
           image_url = None, goal_type = lump_sum \<rparr>],
       filterType := high_impact, annualIncome := 600000\<rparr>) =
     [\<lparr> id' = Some 1, name = ''car'', amount = 500000, target_date = Date 2030 5 15,
         image_url = None, goal_type = lump_sum \<rparr>]"
  using filteredGoals_exact [of "initial_state\<lparr>goals :=
       [\<lparr> id' = Some 1, name = ''car'', amount = 500000, target_date = Date 2030 5 15,
           image_url = None, goal_type = lump_sum \<rparr>,
        \<lparr> id' = Some 2, name = ''trip'', amount = 100000, target_date = Date 2028 0 1,
           image_url = None, goal_type = lump_sum \<rparr>],
       filterType := high_impact, annualIncome := 600000\<rparr>"]
  by simp

text \<open>
  The claim as stated fails while no income is known (the annual income is 0, as in the
  initial state): a goal of 500000 exceeds 0.5 times the annual income, and the
  high-impact filter does not return it.
\<close>

theorem filteredGoals_high_impact_counterexample:
  "filteredGoals (initial_state\<lparr>goals :=
       [\<lparr> id' = Some 1, name = ''car'', amount = 500000, target_date = Date 2030 5 15,
           image_url = None, goal_type = lump_sum \<rparr>],
       filterType := high_impact\<rparr>) = [] \<and>
   amount \<lparr> id' = Some 1, name = ''car'', amount = 500000, target_date = Date 2030 5 15,
            image_url = None, goal_type = lump_sum \<rparr>
     > 0.5 * annualIncome (initial_state\<lparr>goals :=
       [\<lparr> id' = Some 1, name = ''car'', amount = 500000, target_date = Date 2030 5 15,
           image_url = None, goal_type = lump_sum \<rparr>],
       filterType := high_impact\<rparr>)"
  by (simp add: filteredGoals_def initial_state_def)

text \<open>
  Claim C10. A goal with no entry in the analysis map gets the default analysis, of
  probability 0 and progress ratio 0, both on its card and in the filter; so the at-risk
  filter keeps it, and it is shown in the slot of its year.
\<close>

theorem missing_analysis_default:
  assumes "analysis st (id' g) = None"
  shows "probability (card_analysis st g) = 0 \<and> progress_ratio (card_analysis st g) = 0 \<and>
         probability (gAnalysis st g) = 0 \<and> progress_ratio (gAnalysis st g) = 0 \<and>
         (filterType st = at_risk \<and> g \<in> set (goals st) \<longrightarrow>
            g \<in> set (filteredGoals st) \<and>
            (getFullYear (target_date g) = Some (year slot) \<longrightarrow> g \<in> set (slotGoals st slot)))"
  using assms by (simp add: card_analysis_def gAnalysis_def filteredGoals_def slotGoals_def)

theorem missing_analysis_default_witness:
  "probability (card_analysis (initial_state\<lparr>goals :=
       [\<lparr> id' = Some 1, name = ''car'', amount = 500000, target_date = Date 2030 5 15,
           image_url = None, goal_type = lump_sum \<rparr>], filterType := at_risk\<rparr>)
     \<lparr> id' = Some 1, name = ''car'', amount = 500000, target_date = Date 2030 5 15,
        image_url = None, goal_type = lump_sum \<rparr>) = 0 \<and>
   \<lparr> id' = Some 1, name = ''car'', amount = 500000, target_date = Date 2030 5 15,
      image_url = None, goal_type = lump_sum \<rparr>
     \<in> set (slotGoals (initial_state\<lparr>goals :=
       [\<lparr> id' = Some 1, name = ''car'', amount = 500000, target_date = Date 2030 5 15,
           image_url = None, goal_type = lump_sum \<rparr>], filterType := at_risk\<rparr>)
         \<lparr> age = 34, year = 2030 \<rparr>)"
  using missing_analysis_default [of "initial_state\<lparr>goals :=
       [\<lparr> id' = Some 1, name = ''car'', amount = 500000, target_date = Date 2030 5 15,
           image_url = None, goal_type = lump_sum \<rparr>], filterType := at_risk\<rparr>"
     "\<lparr> id' = Some 1, name = ''car'', amount = 500000, target_date = Date 2030 5 15,
        image_url = None, goal_type = lump_sum \<rparr>" "\<lparr> age = 34, year = 2030 \<rparr>"]
  by (simp add: initial_state_def getFullYear_def)

subsection \<open>Reloading the goals and their analysis\<close>

lemma reduce_sum_sum_list: "reduce_sum f xs = sum_list (map f xs)"
proof -
  have "foldl (\<lambda>sum item. sum + f item) a xs = a + sum_list (map f xs)" for a
    by (induction xs arbitrary: a) (simp_all add: add.assoc)
  then show ?thesis by (simp add: reduce_sum_def)
qed

lemma find_append_cases:
  "find P (xs @ ys) = (case find P xs of None \<Rightarrow> find P ys | Some x \<Rightarrow> Some x)"
  by (induction xs) simp_all

lemma find_member: "x \<in> set xs \<Longrightarrow> P x \<Longrightarrow> \<exists>y. find P xs = Some y"
  by (induction xs) auto

text \<open>A later record for a goal id replaces an earlier one.\<close>

lemma analysisMap_foldl:
  "foldl (\<lambda>m item. m(goal_id item \<mapsto> item)) m0 items k =
     (case find (\<lambda>item. goal_id item = k) (rev items) of
        Some item \<Rightarrow> Some item
      | None \<Rightarrow> m0 k)"
proof (induction items rule: rev_induct)
  case Nil
  then show ?case by simp
next
  case (snoc x xs)
  then show ?case by simp
qed

lemma analysisMap_of_lookup:
  "analysisMap_of items k = find (\<lambda>item. goal_id item = k) (rev items)"
  by (simp add: analysisMap_of_def analysisMap_foldl split: option.split)

lemma find_rev_distinct:
  assumes "distinct (map f xs)" and "x \<in> set xs"
  shows "find (\<lambda>y. f y = f x) (rev xs) = Some x"
  using assms
proof (induction xs)
  case Nil
  then show ?case by simp
next
  case (Cons a xs)
  show ?case
  proof (cases "x = a")
    case True
    with Cons.prems have "\<forall>y \<in> set xs. f y \<noteq> f a" by (auto simp: image_iff)
    then have "find (\<lambda>y. f y = f a) (rev xs) = None"
      by (simp add: find_None_iff)
    with True show ?thesis by (simp add: find_append_cases)
  next
    case False
    with Cons show ?thesis by (simp add: find_append_cases)
  qed
qed

lemma card_analysis_mapped:
  assumes "analysis st = analysisMap_of items" and "distinct (map goal_id items)"
    and "item \<in> set items" and "id' g = goal_id item"
  shows "card_analysis st g = item"
  using assms find_rev_distinct [of goal_id items item]
  by (simp add: card_analysis_def analysisMap_of_lookup)

lemma fetch_request:
  assumes "fetched = Some (gs, as, inc, exps)" and "gs \<noteq> []"
  shows "snd (fetchGoalsAndAnalyze st fetched goals_check) =
         Some \<lparr> initial_portfolio = sum_list (map value as),
                annual_contribution =
                  (sum_list (map item_amount inc) - sum_list (map item_amount exps)) * 12,
                req_years = 65, req_goals = gs \<rparr>"
  using assms
  by (simp add: fetchGoalsAndAnalyze_def Let_def reduce_sum_sum_list split: option.split)

lemma fetch_analysis:
  assumes "fetched = Some (gs, as, inc, exps)" and "gs \<noteq> []"
    and "snd (fetchGoalsAndAnalyze st fetched goals_check) = Some req"
    and "goals_check req = Some items"
  shows "analysis (fst (fetchGoalsAndAnalyze st fetched goals_check)) = analysisMap_of items"
    and "goals (fst (fetchGoalsAndAnalyze st fetched goals_check)) = gs"
  using assms
  by (auto simp add: fetchGoalsAndAnalyze_def Let_def split: option.splits)

lemma refetch_after_delete: "refetch (handleDeleteGoal st ident True True)"
  by (simp add: handleDeleteGoal_def)

lemma fetch_empty:
  "snd (fetchGoalsAndAnalyze st (Some ([], as, inc, exps)) goals_check) = None"
  by (simp add: fetchGoalsAndAnalyze_def Let_def)

lemma then_refetch_empty:
  "snd (then_refetch out (Some ([], as, inc, exps)) goals_check) = None"
  by (simp add: then_refetch_def fetch_empty)

lemma refetch_after_save:
  assumes "goalName st \<noteq> []" and "goalAmount st \<noteq> []" and "targetAge st \<noteq> []"
    and "parseInt (targetAge st) = Some a"
    and "Date_in_range (currentYear + (a - currentAge))"
  shows "refetch (handleSaveGoal parseInt parseFloat currentYear st True)"
  using assms by (simp add: handleSaveGoal_def new_Date_0_1_toISOString_def Let_def)

lemma refetch_after_drop:
  assumes "active event = Some dragged" and "id' dragged = Some gid" and "gid \<noteq> 0"
    and "over event = Some Y2" and "Y2 \<noteq> 0" and "dragged \<in> set (goals st)"
  shows "refetch (handleDragEnd st event)"
proof -
  from find_member [OF assms(6), of "\<lambda>g. id' g = Some gid"] assms(2)
  obtain y where "find (\<lambda>g. id' g = Some gid) (goals st) = Some y" by auto
  then show ?thesis
    using assms(1-5) by (simp add: handleDragEnd_def truthy_def Let_def)
qed

lemma then_refetch_run:
  "refetch out \<Longrightarrow>
   then_refetch out fetched goals_check = fetchGoalsAndAnalyze (state_after out) fetched goals_check"
  by (simp add: then_refetch_def)

text \<open>
  Claim C6, as amended. The feasibility request is sent only when the fetched goal list
  is not empty. Whenever the goals are loaded and the list is not empty, that is on every
  run of \<open>fetchGoalsAndAnalyze\<close> (the first on mount), and so after a confirmed delete that
  succeeds, after a save (add or edit) that passes the form check, has a target year in
  the range of \<open>Date\<close> and succeeds, and after a drop on a year-slot that moves a goal of
  the list, one request is sent: it carries the full fetched goal list, the sum of the
  fetched asset values as initial portfolio, and (sum of incomes - sum of expenses) \<open>\<times>\<close> 12
  as annual contribution. When the request is answered, the goals are the fetched ones
  and the analysis map gives, for every goal id, the last returned record with that
  \<open>goal_id\<close>; with distinct ids in the answer, the card of a goal shows the record
  returned for its id. When the fetched goal list is empty, no request is sent, whatever
  the state and whichever handler asked for the reload.
\<close>

theorem fetchGoalsAndAnalyze_resubmits:
  assumes "fetched = Some (gs, as, inc, exps)"
  shows "(gs \<noteq> [] \<longrightarrow>
          (\<exists>req.
             initial_portfolio req = sum_list (map value as) \<and>
             annual_contribution req =
               (sum_list (map item_amount inc) - sum_list (map item_amount exps)) * 12 \<and>
             req_goals req = gs \<and>
             snd (fetchGoalsAndAnalyze st fetched goals_check) = Some req \<and>
             snd (then_refetch (handleDeleteGoal st ident True True) fetched goals_check) =
               Some req \<and>
             (goalName st \<noteq> [] \<and> goalAmount st \<noteq> [] \<and> targetAge st \<noteq> [] \<and>
              parseInt (targetAge st) = Some a \<and>
              Date_in_range (currentYear + (a - currentAge)) \<longrightarrow>
                snd (then_refetch (handleSaveGoal parseInt parseFloat currentYear st True)
                       fetched goals_check) = Some req) \<and>
             (active event = Some dragged \<and> id' dragged = Some gid \<and> gid \<noteq> 0 \<and>
              over event = Some Y2 \<and> Y2 \<in> year ` set (timelineSlots currentYear) \<and>
              100 \<le> currentYear \<and> Date_in_range Y2 \<and> dragged \<in> set (goals st) \<longrightarrow>
                snd (then_refetch (handleDragEnd st event) fetched goals_check) = Some req) \<and>
             (\<forall>items. goals_check req = Some items \<longrightarrow>
                goals (fst (fetchGoalsAndAnalyze st fetched goals_check)) = gs \<and>
                (\<forall>k. analysis (fst (fetchGoalsAndAnalyze st fetched goals_check)) k =
                      find (\<lambda>item. goal_id item = k) (rev items)) \<and>
                (distinct (map goal_id items) \<longrightarrow>
                   (\<forall>item \<in> set items. \<forall>g. id' g = goal_id item \<longrightarrow>
                      card_analysis (fst (fetchGoalsAndAnalyze st fetched goals_check)) g =
                      item))))) \<and>
         (gs = [] \<longrightarrow>
            snd (fetchGoalsAndAnalyze st fetched goals_check) = None \<and>
            snd (then_refetch out fetched goals_check) = None)"
proof (cases "gs = []")
  case True
  with assms show ?thesis by (simp add: fetch_empty then_refetch_empty)
next
  case False
  let ?req = "\<lparr> initial_portfolio = sum_list (map value as),
                 annual_contribution =
                   (sum_list (map item_amount inc) - sum_list (map item_amount exps)) * 12,
                 req_years = 65, req_goals = gs \<rparr>"
  have req: "snd (fetchGoalsAndAnalyze s fetched goals_check) = Some ?req" for s
    by (rule fetch_request [OF assms False])
  have del: "snd (then_refetch (handleDeleteGoal st ident True True) fetched goals_check) = Some ?req"
    by (simp only: then_refetch_run [OF refetch_after_delete] req)
  have sav: "snd (then_refetch (handleSaveGoal parseInt parseFloat currentYear st True)
                    fetched goals_check) = Some ?req"
    if "goalName st \<noteq> []" "goalAmount st \<noteq> []" "targetAge st \<noteq> []"
      "parseInt (targetAge st) = Some a" "Date_in_range (currentYear + (a - currentAge))"
    by (simp only: then_refetch_run
          [OF refetch_after_save [of st parseInt a currentYear parseFloat, OF that]] req)
  have drp: "snd (then_refetch (handleDragEnd st event) fetched goals_check) = Some ?req"
    if "active event = Some dragged" "id' dragged = Some gid" "gid \<noteq> 0"
      "over event = Some Y2" "Y2 \<in> year ` set (timelineSlots currentYear)"
      "100 \<le> currentYear" "dragged \<in> set (goals st)"
  proof -
    from that(5,6) have "Y2 \<noteq> 0" by (simp add: slot_year_range)
    from refetch_after_drop [OF that(1-4) this that(7)]
    show ?thesis by (simp only: then_refetch_run req)
  qed
  have mapped: "goals (fst (fetchGoalsAndAnalyze st fetched goals_check)) = gs \<and>
       (\<forall>k. analysis (fst (fetchGoalsAndAnalyze st fetched goals_check)) k =
             find (\<lambda>item. goal_id item = k) (rev items)) \<and>
       (distinct (map goal_id items) \<longrightarrow>
          (\<forall>item \<in> set items. \<forall>g. id' g = goal_id item \<longrightarrow>
             card_analysis (fst (fetchGoalsAndAnalyze st fetched goals_check)) g = item))"
    if "goals_check ?req = Some items" for items
  proof -
    have an: "analysis (fst (fetchGoalsAndAnalyze st fetched goals_check)) = analysisMap_of items"
      and gl: "goals (fst (fetchGoalsAndAnalyze st fetched goals_check)) = gs"
      by (rule fetch_analysis [OF assms False req that])+
    show ?thesis
      using gl an card_analysis_mapped [OF an] by (simp add: analysisMap_of_lookup)
  qed
  have fields: "initial_portfolio ?req = sum_list (map value as)"
    "annual_contribution ?req =
       (sum_list (map item_amount inc) - sum_list (map item_amount exps)) * 12"
    "req_goals ?req = gs"
    by simp_all
  have "\<exists>req.
             initial_portfolio req = sum_list (map value as) \<and>
             annual_contribution req =
               (sum_list (map item_amount inc) - sum_list (map item_amount exps)) * 12 \<and>
             req_goals req = gs \<and>
             snd (fetchGoalsAndAnalyze st fetched goals_check) = Some req \<and>
             snd (then_refetch (handleDeleteGoal st ident True True) fetched goals_check) =
               Some req \<and>
             (goalName st \<noteq> [] \<and> goalAmount st \<noteq> [] \<and> targetAge st \<noteq> [] \<and>
              parseInt (targetAge st) = Some a \<and>
              Date_in_range (currentYear + (a - currentAge)) \<longrightarrow>
                snd (then_refetch (handleSaveGoal parseInt parseFloat currentYear st True)
                       fetched goals_check) = Some req) \<and>
             (active event = Some dragged \<and> id' dragged = Some gid \<and> gid \<noteq> 0 \<and>
              over event = Some Y2 \<and> Y2 \<in> year ` set (timelineSlots currentYear) \<and>
              100 \<le> currentYear \<and> Date_in_range Y2 \<and> dragged \<in> set (goals st) \<longrightarrow>
                snd (then_refetch (handleDragEnd st event) fetched goals_check) = Some req) \<and>
             (\<forall>items. goals_check req = Some items \<longrightarrow>
                goals (fst (fetchGoalsAndAnalyze st fetched goals_check)) = gs \<and>
                (\<forall>k. analysis (fst (fetchGoalsAndAnalyze st fetched goals_check)) k =
                      find (\<lambda>item. goal_id item = k) (rev items)) \<and>
                (distinct (map goal_id items) \<longrightarrow>
                   (\<forall>item \<in> set items. \<forall>g. id' g = goal_id item \<longrightarrow>
                      card_analysis (fst (fetchGoalsAndAnalyze st fetched goals_check)) g =
                      item)))"
    using fields req [of st] del sav drp mapped by blast
  with False show ?thesis by simp
qed

theorem fetchGoalsAndAnalyze_resubmits_witness:
  "(\<exists>req.
      initial_portfolio req = 1000 \<and> annual_contribution req = 36000 \<and>
      req_goals req = [\<lparr> id' = Some 1, name = ''car'', amount = 500000, target_date = Date 2030 5 15,
          image_url = None, goal_type = lump_sum \<rparr>] \<and>
      snd (fetchGoalsAndAnalyze (initial_state\<lparr>goals := [\<lparr> id' = Some 1, name = ''car'', amount = 500000, target_date = Date 2030 5 15,
          image_url = None, goal_type = lump_sum \<rparr>], goalName := ''trip'', goalAmount := ''100000'',
          targetAge := ''35''\<rparr>)
        (Some ([\<lparr> id' = Some 1, name = ''car'', amount = 500000, target_date = Date 2030 5 15,
          image_url = None, goal_type = lump_sum \<rparr>],
           [\<lparr> asset_id = 1, asset_name = ''savings'', asset_category = ''Cash/Bank Deposit'',
                value = 1000, asset_ticker = None, asset_shares = None \<rparr>],
           [\<lparr> item_id = 1, item_name = ''salary'', item_amount = 5000,
                item_category = ''Salary'' \<rparr>],
           [\<lparr> item_id = 1, item_name = ''rent'', item_amount = 2000,
                item_category = ''Housing'' \<rparr>]))
        (\<lambda>req. Some [\<lparr> goal_id = Some 1, probability = 80, progress_ratio = 1 / 2,
                      status = Some ''On Track'' \<rparr>])) = Some req \<and>
      snd (then_refetch (handleDeleteGoal (initial_state\<lparr>goals := [\<lparr> id' = Some 1, name = ''car'', amount = 500000, target_date = Date 2030 5 15,
          image_url = None, goal_type = lump_sum \<rparr>], goalName := ''trip'', goalAmount := ''100000'',
          targetAge := ''35''\<rparr>) 1 True True)
        (Some ([\<lparr> id' = Some 1, name = ''car'', amount = 500000, target_date = Date 2030 5 15,
          image_url = None, goal_type = lump_sum \<rparr>],
           [\<lparr> asset_id = 1, asset_name = ''savings'', asset_category = ''Cash/Bank Deposit'',
                value = 1000, asset_ticker = None, asset_shares = None \<rparr>],
           [\<lparr> item_id = 1, item_name = ''salary'', item_amount = 5000,
                item_category = ''Salary'' \<rparr>],
           [\<lparr> item_id = 1, item_name = ''rent'', item_amount = 2000,
                item_category = ''Housing'' \<rparr>]))
        (\<lambda>req. Some [\<lparr> goal_id = Some 1, probability = 80, progress_ratio = 1 / 2,
                      status = Some ''On Track'' \<rparr>])) = Some req \<and>
      snd (then_refetch (handleSaveGoal (\<lambda>s. Some 35) (\<lambda>s. Some 100000) 2026 (initial_state\<lparr>goals := [\<lparr> id' = Some 1, name = ''car'', amount = 500000, target_date = Date 2030 5 15,
          image_url = None, goal_type = lump_sum \<rparr>], goalName := ''trip'', goalAmount := ''100000'',
          targetAge := ''35''\<rparr>) True)
        (Some ([\<lparr> id' = Some 1, name = ''car'', amount = 500000, target_date = Date 2030 5 15,
          image_url = None, goal_type = lump_sum \<rparr>],
           [\<lparr> asset_id = 1, asset_name = ''savings'', asset_category = ''Cash/Bank Deposit'',
                value = 1000, asset_ticker = None, asset_shares = None \<rparr>],
           [\<lparr> item_id = 1, item_name = ''salary'', item_amount = 5000,
                item_category = ''Salary'' \<rparr>],
           [\<lparr> item_id = 1, item_name = ''rent'', item_amount = 2000,
                item_category = ''Housing'' \<rparr>]))
        (\<lambda>req. Some [\<lparr> goal_id = Some 1, probability = 80, progress_ratio = 1 / 2,
                      status = Some ''On Track'' \<rparr>])) = Some req \<and>
      snd (then_refetch (handleDragEnd (initial_state\<lparr>goals := [\<lparr> id' = Some 1, name = ''car'', amount = 500000, target_date = Date 2030 5 15,
          image_url = None, goal_type = lump_sum \<rparr>], goalName := ''trip'', goalAmount := ''100000'',
          targetAge := ''35''\<rparr>)
        \<lparr> active_id = ''goal-1'', active = Some \<lparr> id' = Some 1, name = ''car'', amount = 500000, target_date = Date 2030 5 15,
          image_url = None, goal_type = lump_sum \<rparr>, over = Some 2035 \<rparr>)
        (Some ([\<lparr> id' = Some 1, name = ''car'', amount = 500000, target_date = Date 2030 5 15,
          image_url = None, goal_type = lump_sum \<rparr>],
           [\<lparr> asset_id = 1, asset_name = ''savings'', asset_category = ''Cash/Bank Deposit'',
                value = 1000, asset_ticker = None, asset_shares = None \<rparr>],
           [\<lparr> item_id = 1, item_name = ''salary'', item_amount = 5000,
                item_category = ''Salary'' \<rparr>],
           [\<lparr> item_id = 1, item_name = ''rent'', item_amount = 2000,
                item_category = ''Housing'' \<rparr>]))
        (\<lambda>req. Some [\<lparr> goal_id = Some 1, probability = 80, progress_ratio = 1 / 2,
                      status = Some ''On Track'' \<rparr>])) = Some req \<and>
      card_analysis (fst (fetchGoalsAndAnalyze (initial_state\<lparr>goals := [\<lparr> id' = Some 1, name = ''car'', amount = 500000, target_date = Date 2030 5 15,
          image_url = None, goal_type = lump_sum \<rparr>], goalName := ''trip'', goalAmount := ''100000'',
          targetAge := ''35''\<rparr>)
        (Some ([\<lparr> id' = Some 1, name = ''car'', amount = 500000, target_date = Date 2030 5 15,
          image_url = None, goal_type = lump_sum \<rparr>],
           [\<lparr> asset_id = 1, asset_name = ''savings'', asset_category = ''Cash/Bank Deposit'',
                value = 1000, asset_ticker = None, asset_shares = None \<rparr>],
           [\<lparr> item_id = 1, item_name = ''salary'', item_amount = 5000,
                item_category = ''Salary'' \<rparr>],
           [\<lparr> item_id = 1, item_name = ''rent'', item_amount = 2000,
                item_category = ''Housing'' \<rparr>]))
        (\<lambda>req. Some [\<lparr> goal_id = Some 1, probability = 80, progress_ratio = 1 / 2,
                      status = Some ''On Track'' \<rparr>])))
        \<lparr> id' = Some 1, name = ''car'', amount = 500000, target_date = Date 2030 5 15,
          image_url = None, goal_type = lump_sum \<rparr> =
        \<lparr> goal_id = Some 1, probability = 80, progress_ratio = 1 / 2,
          status = Some ''On Track'' \<rparr>) \<and>
   snd (then_refetch (handleDeleteGoal (initial_state\<lparr>goals := [\<lparr> id' = Some 1, name = ''car'', amount = 500000, target_date = Date 2030 5 15,
          image_url = None, goal_type = lump_sum \<rparr>], goalName := ''trip'', goalAmount := ''100000'',
          targetAge := ''35''\<rparr>) 1 True True)
        (Some ([], [], [], []))
        (\<lambda>req. Some [\<lparr> goal_id = Some 1, probability = 80, progress_ratio = 1 / 2,
                      status = Some ''On Track'' \<rparr>])) = None"
proof -
  note nonempty = fetchGoalsAndAnalyze_resubmits
    [where fetched = "(Some ([\<lparr> id' = Some 1, name = ''car'', amount = 500000, target_date = Date 2030 5 15,
          image_url = None, goal_type = lump_sum \<rparr>],
           [\<lparr> asset_id = 1, asset_name = ''savings'', asset_category = ''Cash/Bank Deposit'',
                value = 1000, asset_ticker = None, asset_shares = None \<rparr>],
           [\<lparr> item_id = 1, item_name = ''salary'', item_amount = 5000,
                item_category = ''Salary'' \<rparr>],
           [\<lparr> item_id = 1, item_name = ''rent'', item_amount = 2000,
                item_category = ''Housing'' \<rparr>]))"
      and st = "(initial_state\<lparr>goals := [\<lparr> id' = Some 1, name = ''car'', amount = 500000, target_date = Date 2030 5 15,
          image_url = None, goal_type = lump_sum \<rparr>], goalName := ''trip'', goalAmount := ''100000'',
          targetAge := ''35''\<rparr>)"
      and goals_check = "(\<lambda>req. Some [\<lparr> goal_id = Some 1, probability = 80, progress_ratio = 1 / 2,
                      status = Some ''On Track'' \<rparr>])"
      and ident = 1 and parseInt = "\<lambda>s. Some 35" and a = 35 and parseFloat = "\<lambda>s. Some 100000"
      and currentYear = 2026
      and event = "\<lparr> active_id = ''goal-1'', active = Some \<lparr> id' = Some 1, name = ''car'', amount = 500000, target_date = Date 2030 5 15,
          image_url = None, goal_type = lump_sum \<rparr>, over = Some 2035 \<rparr>"
      and dragged = "\<lparr> id' = Some 1, name = ''car'', amount = 500000, target_date = Date 2030 5 15,
          image_url = None, goal_type = lump_sum \<rparr>"
      and gid = 1 and ?Y2.0 = 2035, OF refl]
  note empty = fetchGoalsAndAnalyze_resubmits
    [where fetched = "Some ([], [], [], [])"
      and out = "handleDeleteGoal (initial_state\<lparr>goals := [\<lparr> id' = Some 1, name = ''car'', amount = 500000, target_date = Date 2030 5 15,
          image_url = None, goal_type = lump_sum \<rparr>], goalName := ''trip'', goalAmount := ''100000'',
          targetAge := ''35''\<rparr>) 1 True True"
      and goals_check = "(\<lambda>req. Some [\<lparr> goal_id = Some 1, probability = 80, progress_ratio = 1 / 2,
                      status = Some ''On Track'' \<rparr>])", OF refl]
  have range: "Date_in_range (2026 + (35 - currentAge))" "Date_in_range 2035"
    by (simp_all add: Date_in_range_def currentAge_def)
  have slot: "(2035::int) \<in> year ` set (timelineSlots 2026)"
    by (simp add: slot_year_range)
  from nonempty range slot obtain req where
    r: "initial_portfolio req = 1000" "annual_contribution req = 36000"
      "req_goals req = [\<lparr> id' = Some 1, name = ''car'', amount = 500000, target_date = Date 2030 5 15,
          image_url = None, goal_type = lump_sum \<rparr>]"
      "snd (fetchGoalsAndAnalyze (initial_state\<lparr>goals := [\<lparr> id' = Some 1, name = ''car'', amount = 500000, target_date = Date 2030 5 15,
          image_url = None, goal_type = lump_sum \<rparr>], goalName := ''trip'', goalAmount := ''100000'',
          targetAge := ''35''\<rparr>)
        (Some ([\<lparr> id' = Some 1, name = ''car'', amount = 500000, target_date = Date 2030 5 15,
          image_url = None, goal_type = lump_sum \<rparr>],
           [\<lparr> asset_id = 1, asset_name = ''savings'', asset_category = ''Cash/Bank Deposit'',
                value = 1000, asset_ticker = None, asset_shares = None \<rparr>],
           [\<lparr> item_id = 1, item_name = ''salary'', item_amount = 5000,
                item_category = ''Salary'' \<rparr>],
           [\<lparr> item_id = 1, item_name = ''rent'', item_amount = 2000,
                item_category = ''Housing'' \<rparr>]))
        (\<lambda>req. Some [\<lparr> goal_id = Some 1, probability = 80, progress_ratio = 1 / 2,
                      status = Some ''On Track'' \<rparr>])) = Some req"
      "snd (then_refetch (handleDeleteGoal (initial_state\<lparr>goals := [\<lparr> id' = Some 1, name = ''car'', amount = 500000, target_date = Date 2030 5 15,
          image_url = None, goal_type = lump_sum \<rparr>], goalName := ''trip'', goalAmount := ''100000'',
          targetAge := ''35''\<rparr>) 1 True True)
        (Some ([\<lparr> id' = Some 1, name = ''car'', amount = 500000, target_date = Date 2030 5 15,
          image_url = None, goal_type = lump_sum \<rparr>],
           [\<lparr> asset_id = 1, asset_name = ''savings'', asset_category = ''Cash/Bank Deposit'',
                value = 1000, asset_ticker = None, asset_shares = None \<rparr>],
           [\<lparr> item_id = 1, item_name = ''salary'', item_amount = 5000,
                item_category = ''Salary'' \<rparr>],
           [\<lparr> item_id = 1, item_name = ''rent'', item_amount = 2000,
                item_category = ''Housing'' \<rparr>]))
        (\<lambda>req. Some [\<lparr> goal_id = Some 1, probability = 80, progress_ratio = 1 / 2,
                      status = Some ''On Track'' \<rparr>])) = Some req"
      "snd (then_refetch (handleSaveGoal (\<lambda>s. Some 35) (\<lambda>s. Some 100000) 2026 (initial_state\<lparr>goals := [\<lparr> id' = Some 1, name = ''car'', amount = 500000, target_date = Date 2030 5 15,
          image_url = None, goal_type = lump_sum \<rparr>], goalName := ''trip'', goalAmount := ''100000'',
          targetAge := ''35''\<rparr>) True)
        (Some ([\<lparr> id' = Some 1, name = ''car'', amount = 500000, target_date = Date 2030 5 15,
          image_url = None, goal_type = lump_sum \<rparr>],
           [\<lparr> asset_id = 1, asset_name = ''savings'', asset_category = ''Cash/Bank Deposit'',
                value = 1000, asset_ticker = None, asset_shares = None \<rparr>],
           [\<lparr> item_id = 1, item_name = ''salary'', item_amount = 5000,
                item_category = ''Salary'' \<rparr>],
           [\<lparr> item_id = 1, item_name = ''rent'', item_amount = 2000,
                item_category = ''Housing'' \<rparr>]))
        (\<lambda>req. Some [\<lparr> goal_id = Some 1, probability = 80, progress_ratio = 1 / 2,
                      status = Some ''On Track'' \<rparr>])) = Some req"
      "snd (then_refetch (handleDragEnd (initial_state\<lparr>goals := [\<lparr> id' = Some 1, name = ''car'', amount = 500000, target_date = Date 2030 5 15,
          image_url = None, goal_type = lump_sum \<rparr>], goalName := ''trip'', goalAmount := ''100000'',
          targetAge := ''35''\<rparr>)
        \<lparr> active_id = ''goal-1'', active = Some \<lparr> id' = Some 1, name = ''car'', amount = 500000, target_date = Date 2030 5 15,
          image_url = None, goal_type = lump_sum \<rparr>, over = Some 2035 \<rparr>)
        (Some ([\<lparr> id' = Some 1, name = ''car'', amount = 500000, target_date = Date 2030 5 15,
          image_url = None, goal_type = lump_sum \<rparr>],
           [\<lparr> asset_id = 1, asset_name = ''savings'', asset_category = ''Cash/Bank Deposit'',
                value = 1000, asset_ticker = None, asset_shares = None \<rparr>],
           [\<lparr> item_id = 1, item_name = ''salary'', item_amount = 5000,
                item_category = ''Salary'' \<rparr>],
           [\<lparr> item_id = 1, item_name = ''rent'', item_amount = 2000,
                item_category = ''Housing'' \<rparr>]))
        (\<lambda>req. Some [\<lparr> goal_id = Some 1, probability = 80, progress_ratio = 1 / 2,
                      status = Some ''On Track'' \<rparr>])) = Some req"
      and m: "\<forall>items. Some [\<lparr> goal_id = Some 1, probability = 80, progress_ratio = 1 / 2,
                      status = Some ''On Track'' \<rparr>] = Some items \<longrightarrow>
                (distinct (map goal_id items) \<longrightarrow>
                   (\<forall>item \<in> set items. \<forall>g. id' g = goal_id item \<longrightarrow>
                      card_analysis (fst (fetchGoalsAndAnalyze (initial_state\<lparr>goals := [\<lparr> id' = Some 1, name = ''car'', amount = 500000, target_date = Date 2030 5 15,
          image_url = None, goal_type = lump_sum \<rparr>], goalName := ''trip'', goalAmount := ''100000'',
          targetAge := ''35''\<rparr>)
        (Some ([\<lparr> id' = Some 1, name = ''car'', amount = 500000, target_date = Date 2030 5 15,
          image_url = None, goal_type = lump_sum \<rparr>],
           [\<lparr> asset_id = 1, asset_name = ''savings'', asset_category = ''Cash/Bank Deposit'',
                value = 1000, asset_ticker = None, asset_shares = None \<rparr>],
           [\<lparr> item_id = 1, item_name = ''salary'', item_amount = 5000,
                item_category = ''Salary'' \<rparr>],
           [\<lparr> item_id = 1, item_name = ''rent'', item_amount = 2000,
                item_category = ''Housing'' \<rparr>]))
        (\<lambda>req. Some [\<lparr> goal_id = Some 1, probability = 80, progress_ratio = 1 / 2,
                      status = Some ''On Track'' \<rparr>]))) g =
                      item))"
    by (simp add: initial_state_def) blast
  from m have "card_analysis (fst (fetchGoalsAndAnalyze (initial_state\<lparr>goals := [\<lparr> id' = Some 1, name = ''car'', amount = 500000, target_date = Date 2030 5 15,
          image_url = None, goal_type = lump_sum \<rparr>], goalName := ''trip'', goalAmount := ''100000'',
          targetAge := ''35''\<rparr>)
        (Some ([\<lparr> id' = Some 1, name = ''car'', amount = 500000, target_date = Date 2030 5 15,
          image_url = None, goal_type = lump_sum \<rparr>],
           [\<lparr> asset_id = 1, asset_name = ''savings'', asset_category = ''Cash/Bank Deposit'',
                value = 1000, asset_ticker = None, asset_shares = None \<rparr>],
           [\<lparr> item_id = 1, item_name = ''salary'', item_amount = 5000,
                item_category = ''Salary'' \<rparr>],
           [\<lparr> item_id = 1, item_name = ''rent'', item_amount = 2000,
                item_category = ''Housing'' \<rparr>]))
        (\<lambda>req. Some [\<lparr> goal_id = Some 1, probability = 80, progress_ratio = 1 / 2,
                      status = Some ''On Track'' \<rparr>])))
        \<lparr> id' = Some 1, name = ''car'', amount = 500000, target_date = Date 2030 5 15,
          image_url = None, goal_type = lump_sum \<rparr> =
        \<lparr> goal_id = Some 1, probability = 80, progress_ratio = 1 / 2,
          status = Some ''On Track'' \<rparr>"
    by simp
  with r empty show ?thesis by simp
qed

text \<open>
  The claim as stated fails when the collection becomes empty: after the only goal is
  deleted, the goals are fetched again, the list is empty, and no feasibility request is
  sent.
\<close>

theorem fetchGoalsAndAnalyze_empty_counterexample:
  "goals (fst (then_refetch
      (handleDeleteGoal
         (initial_state\<lparr>goals :=
            [\<lparr> id' = Some 1, name = ''car'', amount = 500000, target_date = Date 2030 5 15,
                image_url = None, goal_type = lump_sum \<rparr>]\<rparr>) 1 True True)
      (Some ([], [\<lparr> asset_id = 1, asset_name = ''savings'',
                     asset_category = ''Cash/Bank Deposit'', value = 1000,
                     asset_ticker = None, asset_shares = None \<rparr>], [], []))
      (\<lambda>req. Some []))) = [] \<and>
   snd (then_refetch
      (handleDeleteGoal
         (initial_state\<lparr>goals :=
            [\<lparr> id' = Some 1, name = ''car'', amount = 500000, target_date = Date 2030 5 15,
                image_url = None, goal_type = lump_sum \<rparr>]\<rparr>) 1 True True)
      (Some ([], [\<lparr> asset_id = 1, asset_name = ''savings'',
                     asset_category = ''Cash/Bank Deposit'', value = 1000,
                     asset_ticker = None, asset_shares = None \<rparr>], [], []))
      (\<lambda>req. Some [])) = None"
  by (simp add: then_refetch_def handleDeleteGoal_def fetchGoalsAndAnalyze_def Let_def)

subsection \<open>The drag feedback tooltip\<close>

lemma impact_of_fields:
  "oldMonthly (impact_of cy oldYear overYear amt) = spec_required_monthly amt oldYear cy"
  "newMonthly (impact_of cy oldYear overYear amt) = spec_required_monthly amt overYear cy"
  "monthlyDiff (impact_of cy oldYear overYear amt) =
     spec_required_monthly amt overYear cy - spec_required_monthly amt oldYear cy"
  "diff (impact_of cy oldYear overYear amt) = overYear - oldYear"
  by (simp_all add: impact_of_def spec_required_monthly_def Let_def)

lemma tooltip_shown:
  assumes "activeId st = Some aid" and "aid \<noteq> []" and "activeGoal st = Some g"
    and "currentOverYear st = Some overYear" and "overYear \<noteq> 0"
    and "getFullYear (target_date g) = Some oldYear"
  shows "feedback_tooltip cy st =
         Some \<lparr> shown_oldYear = Some oldYear, shown_overYear = overYear,
                shown_age = currentAge + (overYear - cy),
                shown_delta =
                  (if overYear \<noteq> oldYear
                   then Some (if monthlyDiff (impact_of cy oldYear overYear (amount g)) > 0
                              then Increase else Decrease)
                   else None) \<rparr>"
  using assms by (simp add: feedback_tooltip_def Let_def impact_of_fields(4))

lemma handleDragOver_frame:
  "goals (handleDragOver st event) = goals st"
  "analysis (handleDragOver st event) = analysis st"
  "activeGoal (handleDragOver st event) = activeGoal st"
  by (simp_all add: handleDragOver_def split: option.split)

text \<open>A card can be dragged only from a slot, and a goal in a slot has a year.\<close>

lemma slotGoals_year:
  "g \<in> set (slotGoals st slot) \<Longrightarrow> getFullYear (target_date g) = Some (year slot)"
  by (simp add: slotGoals_def)

text \<open>
  Claim C4. While a goal (with target year \<open>oldYear\<close>) is dragged over the slot of the
  year \<open>overYear\<close>, the tooltip computes the old monthly contribution as amount /
  (max(1, \<open>oldYear\<close> - current year) \<open>\<times>\<close> 12), the new one as amount /
  (max(1, \<open>overYear\<close> - current year) \<open>\<times>\<close> 12), and their difference new - old; the
  tooltip is shown, and it reports the difference as an increase when it is positive and
  as a decrease when it is negative. Hovering changes neither the goals, nor their
  analysis, nor the dragged goal held in the state.
\<close>

theorem feedback_tooltip_impact:
  assumes "activeId st = Some aid" and "aid \<noteq> []" and "activeGoal st = Some g"
    and "currentOverYear st = Some overYear" and "overYear \<noteq> 0"
    and "getFullYear (target_date g) = Some oldYear"
  shows "oldMonthly (impact_of currentYear oldYear overYear (amount g)) =
           spec_required_monthly (amount g) oldYear currentYear \<and>
         newMonthly (impact_of currentYear oldYear overYear (amount g)) =
           spec_required_monthly (amount g) overYear currentYear \<and>
         monthlyDiff (impact_of currentYear oldYear overYear (amount g)) =
           spec_required_monthly (amount g) overYear currentYear -
           spec_required_monthly (amount g) oldYear currentYear \<and>
         (\<exists>t. feedback_tooltip currentYear st = Some t \<and>
            (0 < spec_required_monthly (amount g) overYear currentYear -
                 spec_required_monthly (amount g) oldYear currentYear \<longrightarrow>
               shown_delta t = Some Increase) \<and>
            (spec_required_monthly (amount g) overYear currentYear -
               spec_required_monthly (amount g) oldYear currentYear < 0 \<longrightarrow>
               shown_delta t = Some Decrease)) \<and>
         goals (handleDragOver st event) = goals st \<and>
         analysis (handleDragOver st event) = analysis st \<and>
         activeGoal (handleDragOver st event) = activeGoal st"
proof -
  let ?d = "spec_required_monthly (amount g) overYear currentYear -
            spec_required_monthly (amount g) oldYear currentYear"
  have ne: "overYear \<noteq> oldYear" if "?d \<noteq> 0"
    using that by auto
  have pos: "0 < ?d \<longrightarrow> overYear \<noteq> oldYear" and neg: "?d < 0 \<longrightarrow> overYear \<noteq> oldYear"
    using ne by auto
  show ?thesis
    using pos neg
    by (simp add: tooltip_shown [OF assms] impact_of_fields handleDragOver_frame)
qed

theorem feedback_tooltip_impact_witness:
  "feedback_tooltip 2026
     (handleDragOver
        (handleDragStart
           (initial_state\<lparr>goals :=
              [\<lparr> id' = Some 1, name = ''car'', amount = 600000, target_date = Date 2030 5 15,
                  image_url = None, goal_type = lump_sum \<rparr>]\<rparr>)
           \<lparr> active_id = ''goal-1'',
             active = Some \<lparr> id' = Some 1, name = ''car'', amount = 600000,
                             target_date = Date 2030 5 15, image_url = None,
                             goal_type = lump_sum \<rparr>,
             over = None \<rparr>)
        \<lparr> active_id = ''goal-1'',
          active = Some \<lparr> id' = Some 1, name = ''car'', amount = 600000,
                          target_date = Date 2030 5 15, image_url = None,
                          goal_type = lump_sum \<rparr>,
          over = Some 2028 \<rparr>) =
     Some \<lparr> shown_oldYear = Some 2030, shown_overYear = 2028, shown_age = 32,
            shown_delta = Some Increase \<rparr> \<and>
   spec_required_monthly 600000 2030 2026 = 12500 \<and>
   spec_required_monthly 600000 2028 2026 = 25000"
  using feedback_tooltip_impact
    [where st = "handleDragOver
        (handleDragStart
           (initial_state\<lparr>goals :=
              [\<lparr> id' = Some 1, name = ''car'', amount = 600000, target_date = Date 2030 5 15,
                  image_url = None, goal_type = lump_sum \<rparr>]\<rparr>)
           \<lparr> active_id = ''goal-1'',
             active = Some \<lparr> id' = Some 1, name = ''car'', amount = 600000,
                             target_date = Date 2030 5 15, image_url = None,
                             goal_type = lump_sum \<rparr>,
             over = None \<rparr>)
        \<lparr> active_id = ''goal-1'',
          active = Some \<lparr> id' = Some 1, name = ''car'', amount = 600000,
                          target_date = Date 2030 5 15, image_url = None,
                          goal_type = lump_sum \<rparr>,
          over = Some 2028 \<rparr>"
      and aid = "''goal-1''"
      and g = "\<lparr> id' = Some 1, name = ''car'', amount = 600000, target_date = Date 2030 5 15,
                 image_url = None, goal_type = lump_sum \<rparr>"
      and overYear = 2028 and oldYear = 2030 and currentYear = 2026
      and event = "\<lparr> active_id = ''goal-1'', active = None, over = None \<rparr>"]
  by (simp add: handleDragOver_def handleDragStart_def getFullYear_def feedback_tooltip_def
      impact_of_def spec_required_monthly_def currentAge_def Let_def)

subsection \<open>Budget forecast\<close>

lemma forecastData_length: "length (forecastData cy st) = 10"
  by (simp add: forecastData_def)

lemma forecastData_nth:
  assumes "i < 10"
  shows "forecastData cy st ! i =
         \<lparr> year_label = toString (cy + int i),
           row_netFlow = netFlow st * 12 -
             sum_list (map amount (filter (\<lambda>g. getFullYear (target_date g) = Some (cy + int i))
                                     (budget_goals st))),
           baseFlow = netFlow st * 12,
           goalsImpact = - sum_list (map amount (filter (\<lambda>g. getFullYear (target_date g) = Some (cy + int i))
                                     (budget_goals st))) \<rparr>"
proof -
  have "forecastData cy st ! i = (\<lambda>i.
        let year = cy + int i;
            annualBaseFlow = netFlow st * 12;
            yearGoals = filter (\<lambda>g. getFullYear (target_date g) = Some year) (budget_goals st);
            goalsAmount = reduce_sum amount yearGoals
        in \<lparr> year_label = toString year,
             row_netFlow = annualBaseFlow - goalsAmount,
             baseFlow = annualBaseFlow,
             goalsImpact = - goalsAmount \<rparr>) ([0 ..< 10] ! i)"
    unfolding forecastData_def using assms by (intro nth_map) simp
  also have "[0 ..< 10] ! i = i" using assms by simp
  finally show ?thesis by (simp add: Let_def reduce_sum_sum_list)
qed

lemma netFlow_sums:
  "netFlow st = sum_list (map item_amount (incomes st)) - sum_list (map item_amount (expenses st))"
  by (simp add: netFlow_def totalIncome_def totalExpense_def reduce_sum_sum_list)

lemma forecast_no_goals:
  assumes "budget_goals st = []" and "row \<in> set (forecastData cy st)"
  shows "row_netFlow row = netFlow st * 12 \<and> baseFlow row = netFlow st * 12"
proof -
  from assms(2) obtain i where "i < 10" and "row = forecastData cy st ! i"
    by (auto simp: in_set_conv_nth forecastData_length)
  then show ?thesis using assms(1) by (simp add: forecastData_nth)
qed

text \<open>
  Claim C7. The budget page computes the net monthly flow as the total of the incomes
  minus the total of the expenses and shows it rounded to a whole number; with no goals,
  the base flow and the net flow of every forecast year are (I - E) \<open>\<times>\<close> 12. With one
  income of 5000 and one expense of 2000 the net monthly flow is 3000, shown as 3000, and
  every forecast year has base flow and net flow 36000.
\<close>

theorem budget_net_flow:
  "netFlow st = sum_list (map item_amount (incomes st)) - sum_list (map item_amount (expenses st)) \<and>
   shown_netFlow st =
     Math_round (sum_list (map item_amount (incomes st)) - sum_list (map item_amount (expenses st))) \<and>
   (budget_goals st = [] \<longrightarrow>
      (\<forall>row \<in> set (forecastData currentYear st).
         baseFlow row =
           (sum_list (map item_amount (incomes st)) - sum_list (map item_amount (expenses st))) * 12 \<and>
         row_netFlow row =
           (sum_list (map item_amount (incomes st)) - sum_list (map item_amount (expenses st))) * 12)) \<and>
   (item_amount income = 5000 \<and> item_amount expense = 2000 \<longrightarrow>
      netFlow \<lparr> incomes = [income], expenses = [expense], budget_goals = [] \<rparr> = 3000 \<and>
      shown_netFlow \<lparr> incomes = [income], expenses = [expense], budget_goals = [] \<rparr> = 3000 \<and>
      (\<forall>row \<in> set (forecastData currentYear \<lparr> incomes = [income], expenses = [expense], budget_goals = [] \<rparr>).
         baseFlow row = 36000 \<and> row_netFlow row = 36000))"
proof -
  let ?ex = "\<lparr> incomes = [income], expenses = [expense], budget_goals = [] \<rparr>"
  have gen: "baseFlow row = netFlow s * 12 \<and> row_netFlow row = netFlow s * 12"
    if "budget_goals s = []" "row \<in> set (forecastData currentYear s)" for s row
    using forecast_no_goals [OF that] by simp
  have ex: "netFlow ?ex = 3000" if "item_amount income = 5000" "item_amount expense = 2000"
    using that by (simp add: netFlow_sums)
  have shown: "shown_netFlow ?ex = 3000" if "item_amount income = 5000" "item_amount expense = 2000"
    using ex [OF that] by (simp add: shown_netFlow_def Math_round_def)
  have rows: "baseFlow row = 36000 \<and> row_netFlow row = 36000"
    if "item_amount income = 5000" "item_amount expense = 2000"
      "row \<in> set (forecastData currentYear ?ex)" for row
    using gen [of ?ex row] ex [OF that(1,2)] that(3) by simp
  show ?thesis
    using gen [of st] ex shown rows
    by (simp add: netFlow_sums [symmetric] shown_netFlow_def)
qed

theorem budget_net_flow_witness:
  "netFlow \<lparr> incomes = [\<lparr> item_id = 1, item_name = ''salary'', item_amount = 5000,
                            item_category = ''Salary'' \<rparr>],
             expenses = [\<lparr> item_id = 1, item_name = ''rent'', item_amount = 2000,
                             item_category = ''Housing'' \<rparr>],
             budget_goals = [] \<rparr> = 3000 \<and>
   baseFlow (forecastData 2026
      \<lparr> incomes = [\<lparr> item_id = 1, item_name = ''salary'', item_amount = 5000,
                       item_category = ''Salary'' \<rparr>],
        expenses = [\<lparr> item_id = 1, item_name = ''rent'', item_amount = 2000,
                        item_category = ''Housing'' \<rparr>],
        budget_goals = [] \<rparr> ! 9) = 36000"
  using budget_net_flow
    [of "\<lparr> incomes = [\<lparr> item_id = 1, item_name = ''salary'', item_amount = 5000,
                          item_category = ''Salary'' \<rparr>],
           expenses = [\<lparr> item_id = 1, item_name = ''rent'', item_amount = 2000,
                           item_category = ''Housing'' \<rparr>],
           budget_goals = [] \<rparr>" 2026
        "\<lparr> item_id = 1, item_name = ''salary'', item_amount = 5000, item_category = ''Salary'' \<rparr>"
        "\<lparr> item_id = 1, item_name = ''rent'', item_amount = 2000, item_category = ''Housing'' \<rparr>"]
  by (simp add: forecastData_nth)

text \<open>
  Claim C9. The forecast always has exactly 10 rows; row \<open>i\<close> is labelled with the year
  current year + \<open>i\<close>, so the rows are the 10 consecutive years from the current one; and
  the net flow of a row is the annual base flow (net monthly flow \<open>\<times>\<close> 12) minus the sum of
  the amounts of exactly the goals whose target date falls in the year of the row.
\<close>

theorem forecastData_ten_years:
  "length (forecastData currentYear st) = 10 \<and>
   (\<forall>i < 10.
      year_label (forecastData currentYear st ! i) = toString (currentYear + int i) \<and>
      baseFlow (forecastData currentYear st ! i) = netFlow st * 12 \<and>
      row_netFlow (forecastData currentYear st ! i) =
        netFlow st * 12 -
        sum_list (map amount
          (filter (\<lambda>g. getFullYear (target_date g) = Some (currentYear + int i))
             (budget_goals st))))"
  by (simp add: forecastData_length forecastData_nth)

theorem forecastData_ten_years_witness:
  "length (forecastData 2026
      \<lparr> incomes = [\<lparr> item_id = 1, item_name = ''salary'', item_amount = 5000,
                       item_category = ''Salary'' \<rparr>],
        expenses = [\<lparr> item_id = 1, item_name = ''rent'', item_amount = 2000,
                        item_category = ''Housing'' \<rparr>],
        budget_goals = [\<lparr> id' = Some 1, name = ''car'', amount = 20000,
                           target_date = Date 2028 5 15, image_url = None,
                           goal_type = lump_sum \<rparr>] \<rparr>) = 10 \<and>
   year_label (forecastData 2026
      \<lparr> incomes = [\<lparr> item_id = 1, item_name = ''salary'', item_amount = 5000,
                       item_category = ''Salary'' \<rparr>],
        expenses = [\<lparr> item_id = 1, item_name = ''rent'', item_amount = 2000,
                        item_category = ''Housing'' \<rparr>],
        budget_goals = [\<lparr> id' = Some 1, name = ''car'', amount = 20000,
                           target_date = Date 2028 5 15, image_url = None,
                           goal_type = lump_sum \<rparr>] \<rparr> ! 2) = ''2028'' \<and>
   row_netFlow (forecastData 2026
      \<lparr> incomes = [\<lparr> item_id = 1, item_name = ''salary'', item_amount = 5000,
                       item_category = ''Salary'' \<rparr>],
        expenses = [\<lparr> item_id = 1, item_name = ''rent'', item_amount = 2000,
                        item_category = ''Housing'' \<rparr>],
        budget_goals = [\<lparr> id' = Some 1, name = ''car'', amount = 20000,
                           target_date = Date 2028 5 15, image_url = None,
                           goal_type = lump_sum \<rparr>] \<rparr> ! 2) = 16000"
  using forecastData_ten_years
    [of 2026 "\<lparr> incomes = [\<lparr> item_id = 1, item_name = ''salary'', item_amount = 5000,
                       item_category = ''Salary'' \<rparr>],
        expenses = [\<lparr> item_id = 1, item_name = ''rent'', item_amount = 2000,
                        item_category = ''Housing'' \<rparr>],
        budget_goals = [\<lparr> id' = Some 1, name = ''car'', amount = 20000,
                           target_date = Date 2028 5 15, image_url = None,
                           goal_type = lump_sum \<rparr>] \<rparr>"]
  by (simp add: forecastData_length forecastData_nth netFlow_sums getFullYear_def toString_def
      digits_of.simps digit_char_def)

subsection \<open>Submitting a stock asset\<close>

lemma body_of_submit: "body_of (snd (handleAddOrUpdateAsset st ok)) = newAsset st"
  by (simp add: handleAddOrUpdateAsset_def Let_def)

lemma fetchPreview_resolved:
  assumes "form_category (newAsset st) = ''Stock/Fund''" and "form_ticker (newAsset st) \<noteq> []"
    and "0 < form_shares (newAsset st)"
    and "preview (form_ticker (newAsset st)) (form_shares (newAsset st)) = Some d"
  shows "previewData (fetchPreview preview st) = Some d"
    and "newAsset (fetchPreview preview st) = (newAsset st)\<lparr>form_value := total_value_twd d\<rparr>"
  using assms by (simp_all add: fetchPreview_def)

lemma fetchPreview_failed:
  assumes "form_category (newAsset st) = ''Stock/Fund''"
    and "preview (form_ticker (newAsset st)) (form_shares (newAsset st)) = None"
  shows "submit_disabled (fetchPreview preview st)"
  using assms by (simp add: fetchPreview_def submit_disabled_def)

text \<open>
  Claim C8. In every state of the asset form whose category is Stock/Fund and whose
  preview data is absent, the submit button is disabled. When the preview of such a form
  (with a ticker and a positive share count) resolves, the answer becomes the preview
  data and its total becomes the value of the form, which is the value in the body that a
  submission sends; the button is then disabled only while a submission is under way.
  When the preview fails, the button stays disabled.
\<close>

theorem stock_submit_needs_preview:
  "(form_category (newAsset st) = ''Stock/Fund'' \<and> previewData st = None \<longrightarrow> submit_disabled st) \<and>
   (form_category (newAsset st) = ''Stock/Fund'' \<and> form_ticker (newAsset st) \<noteq> [] \<and>
    0 < form_shares (newAsset st) \<and>
    preview (form_ticker (newAsset st)) (form_shares (newAsset st)) = Some d \<longrightarrow>
      previewData (fetchPreview preview st) = Some d \<and>
      form_value (newAsset (fetchPreview preview st)) = total_value_twd d \<and>
      form_value (body_of (snd (handleAddOrUpdateAsset (fetchPreview preview st) ok))) =
        total_value_twd d \<and>
      submit_disabled (fetchPreview preview st) = form_loading st) \<and>
   (form_category (newAsset st) = ''Stock/Fund'' \<and>
    preview (form_ticker (newAsset st)) (form_shares (newAsset st)) = None \<longrightarrow>
      submit_disabled (fetchPreview preview st))"
proof -
  have a: "submit_disabled st"
    if "form_category (newAsset st) = ''Stock/Fund''" "previewData st = None"
    using that by (simp add: submit_disabled_def)
  have b: "previewData (fetchPreview preview st) = Some d \<and>
      form_value (newAsset (fetchPreview preview st)) = total_value_twd d \<and>
      form_value (body_of (snd (handleAddOrUpdateAsset (fetchPreview preview st) ok))) =
        total_value_twd d \<and>
      submit_disabled (fetchPreview preview st) = form_loading st"
    if "form_category (newAsset st) = ''Stock/Fund''" "form_ticker (newAsset st) \<noteq> []"
      "0 < form_shares (newAsset st)"
      "preview (form_ticker (newAsset st)) (form_shares (newAsset st)) = Some d"
    using that fetchPreview_resolved [of st preview d, OF that]
    by (simp add: body_of_submit submit_disabled_def) (simp add: fetchPreview_def)
  show ?thesis
    using a b fetchPreview_failed [of st preview] by blast
qed

theorem stock_submit_needs_preview_witness:
  "submit_disabled
     \<lparr> assets = [],
         newAsset = \<lparr> form_name = ''TSMC'', form_category = ''Stock/Fund'', form_value = 0,
                      form_ticker = ''2330.TW'', form_shares = 10 \<rparr>,
         editingId = None, previewData = None, form_loading = False,
         previewLoading = False \<rparr> \<and>
   \<not> submit_disabled (fetchPreview
     (\<lambda>t n. Some \<lparr> ticker = t, price = 600, currency = ''TWD'', exchange_rate = 1,
                     total_value_twd = 6000 \<rparr>)
     \<lparr> assets = [],
         newAsset = \<lparr> form_name = ''TSMC'', form_category = ''Stock/Fund'', form_value = 0,
                      form_ticker = ''2330.TW'', form_shares = 10 \<rparr>,
         editingId = None, previewData = None, form_loading = False,
         previewLoading = False \<rparr>) \<and>
   form_value (body_of (snd (handleAddOrUpdateAsset (fetchPreview
     (\<lambda>t n. Some \<lparr> ticker = t, price = 600, currency = ''TWD'', exchange_rate = 1,
                     total_value_twd = 6000 \<rparr>)
     \<lparr> assets = [],
         newAsset = \<lparr> form_name = ''TSMC'', form_category = ''Stock/Fund'', form_value = 0,
                      form_ticker = ''2330.TW'', form_shares = 10 \<rparr>,
         editingId = None, previewData = None, form_loading = False,
         previewLoading = False \<rparr>) True))) = 6000"
  using stock_submit_needs_preview
    [of "\<lparr> assets = [],
         newAsset = \<lparr> form_name = ''TSMC'', form_category = ''Stock/Fund'', form_value = 0,
                      form_ticker = ''2330.TW'', form_shares = 10 \<rparr>,
         editingId = None, previewData = None, form_loading = False,
         previewLoading = False \<rparr>"
        "(\<lambda>t n. Some \<lparr> ticker = t, price = 600, currency = ''TWD'', exchange_rate = 1,
                     total_value_twd = 6000 \<rparr>)"
        "\<lparr> ticker = ''2330.TW'', price = 600, currency = ''TWD'', exchange_rate = 1,
           total_value_twd = 6000 \<rparr>" True]
  by simp

end
